theory Spec2Isabelle
  imports Main "HOL-Library.Sublist"
begin

section \<open>Python values, exceptions and string operations\<close>

text \<open>
  The three scripts drive a browser through Selenium, read text out of the page and
  write two fields to an SQLite table. Everything outside the scripts (the browser, the
  page, pandas, the database) is a parameter of the model: an environment record says
  what each external call returns or raises, and the functions below follow the
  scripts' own control flow over these answers.

  An exception is a value of \<open>exc\<close>; a call that may raise returns \<open>exc + 'a\<close>
  with \<open>Inl\<close> for the raise. Only subclasses of Python's \<open>Exception\<close> are modelled
  (\<open>KeyboardInterrupt\<close> and \<open>SystemExit\<close> are not).
\<close>

datatype exc =
    TimeoutException
  | NoSuchElementException
  | WebDriverException
  | AttributeError
  | ValueError
  | KeyError
  | TypeError
  | UnboundLocalError
  | OperationalError
  | OtherException

type_synonym 'a result = "exc + 'a"

text \<open>
  A Python \<open>str\<close> is modelled as a \<open>string\<close> whose characters are the code points
  U+0000 to U+00FF (all that \<open>char\<close> holds). On this range \<open>str.isspace\<close>,
  \<open>str.isdigit\<close> and \<open>int\<close> are as follows: the white space characters are
  U+0009 to U+000D, U+001C to U+0020, U+0085 and U+00A0; \<open>isdigit\<close> accepts the decimal
  digits 0 to 9 and the superscript digits U+00B2, U+00B3 and U+00B9; \<open>int\<close> accepts
  the decimal digits only.
\<close>

definition isspace :: "char \<Rightarrow> bool" where
  "isspace c = ((of_char c :: nat) \<in> set [9, 10, 11, 12, 13, 28, 29, 30, 31, 32, 133, 160])"

definition is_decimal :: "char \<Rightarrow> bool" where
  "is_decimal c = (48 \<le> (of_char c :: nat) \<and> (of_char c :: nat) \<le> 57)"

definition isdigit_char :: "char \<Rightarrow> bool" where
  "isdigit_char c = (is_decimal c \<or> (of_char c :: nat) \<in> set [178, 179, 185])"

definition isdigit :: "string \<Rightarrow> bool" where
  "isdigit s = (s \<noteq> [] \<and> list_all isdigit_char s)"

definition py_strip :: "string \<Rightarrow> string" where
  "py_strip s = rev (dropWhile isspace (rev (dropWhile isspace s)))"

definition digit_value :: "char \<Rightarrow> int" where
  "digit_value c = int (of_char c) - 48"

definition digits_value :: "string \<Rightarrow> int" where
  "digits_value ds = foldl (\<lambda>a c. 10 * a + digit_value c) 0 ds"

text \<open>
  The digits of an integer literal: decimal digits, with single underscores allowed
  between two digits. The flag says whether the previous character was a digit.
\<close>

fun digits_ok :: "bool \<Rightarrow> string \<Rightarrow> bool" where
  "digits_ok p [] = p"
| "digits_ok p (c # cs) =
     (if is_decimal c then digits_ok True cs
      else if c = CHR ''_'' \<and> p then digits_ok False cs
      else False)"

text \<open>
  \<open>int(s)\<close> for a string: surrounding white space is dropped, one sign is allowed,
  and anything else than a digit literal raises \<open>ValueError\<close>. (The interpreter's
  configurable limit on the number of digits is not modelled.)
\<close>

definition py_int :: "string \<Rightarrow> int result" where
  "py_int s =
     (let t = py_strip s;
          neg = (t \<noteq> [] \<and> hd t = CHR ''-'');
          u = (if t \<noteq> [] \<and> (hd t = CHR ''-'' \<or> hd t = CHR ''+'') then tl t else t)
      in if digits_ok False u
         then Inr ((if neg then - 1 else 1) * digits_value (filter (\<lambda>c. c \<noteq> CHR ''_'') u))
         else Inl ValueError)"

text \<open>
  \<open>find_sub pat s\<close> splits \<open>s\<close> around the first occurrence of \<open>pat\<close>: the text
  before it and the text after it.
\<close>

fun find_sub :: "string \<Rightarrow> string \<Rightarrow> (string \<times> string) option" where
  "find_sub pat [] = (if pat = [] then Some ([], []) else None)"
| "find_sub pat (c # cs) =
     (if prefix pat (c # cs) then Some ([], drop (length pat) (c # cs))
      else (case find_sub pat cs of
              None \<Rightarrow> None
            | Some (b, a) \<Rightarrow> Some (c # b, a)))"

lemma find_sub_decomp:
  "find_sub pat s = Some (b, a) \<Longrightarrow> s = b @ pat @ a"
proof (induction s arbitrary: b)
  case Nil
  then show ?case by (simp split: if_splits)
next
  case (Cons c cs)
  show ?case
  proof (cases "prefix pat (c # cs)")
    case True
    then obtain r where r: "c # cs = pat @ r" by (auto simp: prefix_def)
    from True Cons.prems have "b = []" "a = drop (length pat) (c # cs)" by simp_all
    with r show ?thesis by simp
  next
    case False
    with Cons.prems obtain b' where "find_sub pat cs = Some (b', a)" "b = c # b'"
      by (auto split: option.splits)
    with Cons.IH show ?thesis by simp
  qed
qed

lemma find_sub_shorter:
  "find_sub pat s = Some (b, a) \<Longrightarrow> pat \<noteq> [] \<Longrightarrow> length a < length s"
  by (drule find_sub_decomp) simp

text \<open>\<open>s.replace(old, new)\<close>: every occurrence, left to right, without overlaps.\<close>

function py_replace :: "string \<Rightarrow> string \<Rightarrow> string \<Rightarrow> string" where
  "py_replace old new s =
     (if old = [] then new @ concat (map (\<lambda>c. c # new) s)
      else (case find_sub old s of
              None \<Rightarrow> s
            | Some (b, a) \<Rightarrow> b @ new @ py_replace old new a))"
  by pat_completeness auto
termination
  by (relation "measure (\<lambda>(old, new, s). length s)") (auto dest: find_sub_shorter)

declare py_replace.simps [simp del]

text \<open>\<open>s.split(sep)[-1]\<close>: the text after the last separator; an empty separator raises.\<close>

function after_last :: "string \<Rightarrow> string \<Rightarrow> string" where
  "after_last sep s =
     (if sep = [] then s
      else (case find_sub sep s of
              None \<Rightarrow> s
            | Some (b, a) \<Rightarrow> after_last sep a))"
  by pat_completeness auto
termination
  by (relation "measure (\<lambda>(sep, s). length s)") (auto dest: find_sub_shorter)

declare after_last.simps [simp del]

definition split_last :: "string \<Rightarrow> string \<Rightarrow> string result" where
  "split_last sep s = (if sep = [] then Inl ValueError else Inr (after_last sep s))"


section \<open>Dictionaries and truthiness\<close>

text \<open>
  The values the scripts put into their dictionaries. A dictionary is an association
  list in insertion order; storing under an existing key replaces the value in place.
\<close>

datatype pyval = PNone | PInt int | PStr string | PDict "(string \<times> pyval) list"

fun dict_set :: "('k \<times> 'v) list \<Rightarrow> 'k \<Rightarrow> 'v \<Rightarrow> ('k \<times> 'v) list" where
  "dict_set [] k v = [(k, v)]"
| "dict_set ((k', v') # d) k v =
     (if k' = k then (k, v) # d else (k', v') # dict_set d k v)"

definition dict_get :: "('k \<times> 'v) list \<Rightarrow> 'k \<Rightarrow> 'v result" where
  "dict_get d k = (case map_of d k of None \<Rightarrow> Inl KeyError | Some v \<Rightarrow> Inr v)"

fun truthy :: "pyval \<Rightarrow> bool" where
  "truthy PNone = False"
| "truthy (PInt n) = (n \<noteq> 0)"
| "truthy (PStr s) = (s \<noteq> [])"
| "truthy (PDict d) = (d \<noteq> [])"

text \<open>\<open>a or b\<close>: the first operand when it is truthy, else the second.\<close>

definition py_or :: "pyval \<Rightarrow> pyval \<Rightarrow> pyval" where
  "py_or a b = (if truthy a then a else b)"

text \<open>\<open>xs[:n]\<close>: a negative bound counts from the end.\<close>

definition slice_to :: "'a list \<Rightarrow> int \<Rightarrow> 'a list" where
  "slice_to xs n = (if 0 \<le> n then take (nat n) xs else take (length xs - nat (- n)) xs)"

section \<open>The browser\<close>

text \<open>
  The browser handles of one run: how many were created, and which are still open.
  Creating a driver either raises, and leaves no handle, or returns a new handle;
  \<open>driver.quit()\<close> closes the handle and returns (Selenium's \<open>quit\<close> stops the
  driver service whatever the browser answers).
\<close>

record browser =
  created :: nat
  live :: "nat list"

definition new_driver :: "exc option \<Rightarrow> browser \<Rightarrow> browser \<times> nat result" where
  "new_driver outcome w =
     (case outcome of
        Some e \<Rightarrow> (w, Inl e)
      | None \<Rightarrow> (w\<lparr>created := Suc (created w), live := created w # live w\<rparr>, Inr (created w)))"

definition quit :: "nat \<Rightarrow> browser \<Rightarrow> browser" where
  "quit d w = w\<lparr>live := removeAll d (live w)\<rparr>"

definition fresh :: browser where
  "fresh = \<lparr>created = 0, live = []\<rparr>"

section \<open>search\_players.py: driver acquisition\<close>

text \<open>
  What the machine answers to \<open>setup_chrome_driver\<close>: whether the managed driver
  installs and starts, which paths exist, whether Chrome starts with the driver at a
  path, and whether it starts with no explicit service. \<open>None\<close> is success.
\<close>

record acq_env =
  managed_driver :: "exc option"
  path_exists :: "string \<Rightarrow> bool"
  chrome_at :: "string \<Rightarrow> exc option"
  chrome_plain :: "exc option"

text \<open>The lines the function prints to standard error.\<close>

datatype acq_log =
    AttemptManaged | ManagedOk | ManagedFailed exc
  | AttemptSystem | SystemOk string | SystemFailed string exc
  | AttemptPlain | PlainOk | PlainFailed exc

definition possible_paths :: "string list" where
  "possible_paths =
     [''/usr/local/bin/chromedriver'', ''/opt/homebrew/bin/chromedriver'',
      ''/usr/bin/chromedriver'', ''chromedriver'']"

text \<open>The loop over the paths; \<open>Some d\<close> is the \<open>return driver\<close> inside it.\<close>

fun try_paths :: "acq_env \<Rightarrow> browser \<Rightarrow> string list \<Rightarrow> browser \<times> acq_log list \<times> nat option" where
  "try_paths env w [] = (w, [], None)"
| "try_paths env w (p # ps) =
     (if path_exists env p \<or> p = ''chromedriver'' then
        (case new_driver (chrome_at env p) w of
           (w', Inr d) \<Rightarrow> (w', [SystemOk p], Some d)
         | (w', Inl e) \<Rightarrow>
             (case try_paths env w' ps of (w'', l, r) \<Rightarrow> (w'', SystemFailed p e # l, r)))
      else try_paths env w ps)"

definition setup_chrome_driver :: "acq_env \<Rightarrow> browser \<Rightarrow> browser \<times> acq_log list \<times> nat result" where
  "setup_chrome_driver env w =
     (case new_driver (managed_driver env) w of
        (w1, Inr d) \<Rightarrow> (w1, [AttemptManaged, ManagedOk], Inr d)
      | (w1, Inl e1) \<Rightarrow>
          (case try_paths env w1 possible_paths of
             (w2, l2, Some d) \<Rightarrow> (w2, [AttemptManaged, ManagedFailed e1, AttemptSystem] @ l2, Inr d)
           | (w2, l2, None) \<Rightarrow>
               (case new_driver (chrome_plain env) w2 of
                  (w3, Inr d) \<Rightarrow>
                    (w3, [AttemptManaged, ManagedFailed e1, AttemptSystem] @ l2 @ [AttemptPlain, PlainOk], Inr d)
                | (w3, Inl e3) \<Rightarrow>
                    (w3, [AttemptManaged, ManagedFailed e1, AttemptSystem] @ l2 @ [AttemptPlain, PlainFailed e3],
                     Inl WebDriverException))))"

text \<open>
  The specification's reading of the same function: an ordered list of strategies,
  tried until the first one succeeds; \<open>WebDriverException\<close> when none does.
\<close>

datatype strategy = Managed | SystemPath string | FrameworkLocated

definition strategies :: "acq_env \<Rightarrow> strategy list" where
  "strategies env =
     Managed # map SystemPath (filter (\<lambda>p. path_exists env p \<or> p = ''chromedriver'') possible_paths)
       @ [FrameworkLocated]"

fun strategy_outcome :: "acq_env \<Rightarrow> strategy \<Rightarrow> exc option" where
  "strategy_outcome env Managed = managed_driver env"
| "strategy_outcome env (SystemPath p) = chrome_at env p"
| "strategy_outcome env FrameworkLocated = chrome_plain env"

fun first_success :: "acq_env \<Rightarrow> browser \<Rightarrow> strategy list \<Rightarrow> browser \<times> (strategy \<times> exc option) list \<times> nat result" where
  "first_success env w [] = (w, [], Inl WebDriverException)"
| "first_success env w (s # ss) =
     (case new_driver (strategy_outcome env s) w of
        (w', Inr d) \<Rightarrow> (w', [(s, None)], Inr d)
      | (w', Inl e) \<Rightarrow>
          (case first_success env w' ss of (w'', tr, r) \<Rightarrow> (w'', (s, Some e) # tr, r)))"

text \<open>The strategies a log shows as tried, each with its failure if it failed.\<close>

fun tried :: "acq_log list \<Rightarrow> (strategy \<times> exc option) list" where
  "tried [] = []"
| "tried (ManagedOk # l) = (Managed, None) # tried l"
| "tried (ManagedFailed e # l) = (Managed, Some e) # tried l"
| "tried (SystemOk p # l) = (SystemPath p, None) # tried l"
| "tried (SystemFailed p e # l) = (SystemPath p, Some e) # tried l"
| "tried (PlainOk # l) = (FrameworkLocated, None) # tried l"
| "tried (PlainFailed e # l) = (FrameworkLocated, Some e) # tried l"
| "tried (_ # l) = tried l"


section \<open>search\_players.py: the fuzzy search\<close>

text \<open>
  A result card as the page shows it: for each element the script looks up, the text
  it reads there, or the exception the lookup raises. The link's \<open>href\<close> attribute
  may be missing (\<open>get_attribute\<close> returns \<open>None\<close>, and \<open>.split\<close> on it raises
  \<open>AttributeError\<close>).
\<close>

record badge =
  type_text :: "string result"
  value_text :: "string result"

record card =
  name_text :: "string result"
  link_href :: "string option result"
  state_text :: "string result"
  rating_badges :: "badge list result"
  expiration_span :: "string result"

definition initial_ratings :: "(string \<times> pyval) list" where
  "initial_ratings =
     [(''regular'', PNone), (''quick'', PNone), (''blitz'', PNone),
      (''online_regular'', PNone), (''online_quick'', PNone), (''online_blitz'', PNone)]"

text \<open>The chain of comparisons on the badge's type code.\<close>

definition rating_key :: "string \<Rightarrow> string option" where
  "rating_key rating_type =
     (if rating_type = ''R'' then Some ''regular''
      else if rating_type = ''Q'' then Some ''quick''
      else if rating_type = ''B'' then Some ''blitz''
      else if rating_type = ''OR'' then Some ''online_regular''
      else if rating_type = ''OQ'' then Some ''online_quick''
      else if rating_type = ''OB'' then Some ''online_blitz''
      else None)"

text \<open>\<open>int(rating_value) if rating_value.isdigit() else None\<close>\<close>

definition rating_of_text :: "string \<Rightarrow> pyval result" where
  "rating_of_text rating_value =
     (if isdigit rating_value
      then (case py_int rating_value of Inl e \<Rightarrow> Inl e | Inr n \<Rightarrow> Inr (PInt n))
      else Inr PNone)"

text \<open>The body of the \<open>try\<close> for one badge: the dictionary after it, or the exception.\<close>

definition parse_badge :: "(string \<times> pyval) list \<Rightarrow> badge \<Rightarrow> (string \<times> pyval) list result" where
  "parse_badge ratings b =
     (case type_text b of
        Inl e \<Rightarrow> Inl e
      | Inr ty \<Rightarrow>
          (case value_text b of
             Inl e \<Rightarrow> Inl e
           | Inr v \<Rightarrow>
               (case rating_key (py_strip ty) of
                  None \<Rightarrow> Inr ratings
                | Some k \<Rightarrow>
                    (case rating_of_text (py_strip v) of
                       Inl e \<Rightarrow> Inl e
                     | Inr x \<Rightarrow> Inr (dict_set ratings k x)))))"

text \<open>The loop over the badges: a badge that raises is skipped.\<close>

fun parse_badges :: "(string \<times> pyval) list \<Rightarrow> badge list \<Rightarrow> (string \<times> pyval) list" where
  "parse_badges ratings [] = ratings"
| "parse_badges ratings (b # bs) =
     parse_badges (case parse_badge ratings b of Inl e \<Rightarrow> ratings | Inr r \<Rightarrow> r) bs"

text \<open>\<open>ratings['regular'] or ratings['quick'] or ratings['blitz']\<close>\<close>

definition primary_rating :: "(string \<times> pyval) list \<Rightarrow> pyval result" where
  "primary_rating ratings =
     (case dict_get ratings ''regular'' of
        Inl e \<Rightarrow> Inl e
      | Inr r \<Rightarrow>
          if truthy r then Inr r
          else (case dict_get ratings ''quick'' of
                  Inl e \<Rightarrow> Inl e
                | Inr q \<Rightarrow>
                    if truthy q then Inr q
                    else dict_get ratings ''blitz''))"

text \<open>The body of the \<open>try\<close> for one card: the player dictionary, or the exception.\<close>

definition parse_card :: "card \<Rightarrow> (string \<times> pyval) list result" where
  "parse_card c =
     (case name_text c of
        Inl e \<Rightarrow> Inl e
      | Inr n \<Rightarrow>
          (case link_href c of
             Inl e \<Rightarrow> Inl e
           | Inr None \<Rightarrow> Inl AttributeError
           | Inr (Some player_url) \<Rightarrow>
               (case split_last ''/player/'' player_url of
                  Inl e \<Rightarrow> Inl e
                | Inr uscf_id \<Rightarrow>
                    (let state = (case state_text c of Inl e \<Rightarrow> PNone | Inr s \<Rightarrow> PStr (py_strip s))
                     in case rating_badges c of
                          Inl e \<Rightarrow> Inl e
                        | Inr bs \<Rightarrow>
                            (let ratings = parse_badges initial_ratings bs;
                                 expiration_text =
                                   (case expiration_span c of
                                      Inl e \<Rightarrow> PNone
                                    | Inr s \<Rightarrow> PStr (py_strip (py_replace ''Exp: '' [] s)))
                             in case primary_rating ratings of
                                  Inl e \<Rightarrow> Inl e
                                | Inr pr \<Rightarrow>
                                    Inr [(''name'', PStr (py_strip n)),
                                         (''memberId'', PStr uscf_id),
                                         (''state'', if truthy state then state else PNone),
                                         (''ratings'', PDict ratings),
                                         (''uscf_id'', PStr uscf_id),
                                         (''rating'', pr),
                                         (''expiration_date'', expiration_text)])))))"

text \<open>The loop over the cards: a card that raises is skipped.\<close>

fun parse_cards :: "card list \<Rightarrow> (string \<times> pyval) list list" where
  "parse_cards [] = []"
| "parse_cards (c # cs) =
     (case parse_card c of
        Inl e \<Rightarrow> parse_cards cs
      | Inr player \<Rightarrow> player # parse_cards cs)"

text \<open>
  What the site answers to one search: the driver acquisition, the navigation to the
  search URL (\<open>None\<close> when it returns) and the cards found on the page.
\<close>

record search_env =
  acquisition :: acq_env
  navigate :: "string \<Rightarrow> exc option"
  find_cards :: "card list result"

definition URL :: string where
  "URL = ''https://beta-ratings.uschess.org''"

text \<open>
  The inner \<open>try ... finally\<close>, with the driver in hand: the players or the
  exception, and the browser after \<open>driver.quit()\<close> (whose own \<open>try\<close> has
  nothing to catch here).
\<close>

definition search_with_driver ::
  "search_env \<Rightarrow> browser \<Rightarrow> nat \<Rightarrow> string \<Rightarrow> int \<Rightarrow> browser \<times> (string \<times> pyval) list list result" where
  "search_with_driver env w driver search_url max_results =
     (let r = (case navigate env search_url of
                 Some e \<Rightarrow> Inl e
               | None \<Rightarrow>
                   (case find_cards env of
                      Inl e \<Rightarrow> Inl e
                    | Inr search_cards \<Rightarrow> Inr (parse_cards (slice_to search_cards max_results))))
      in (quit driver w, r))"

text \<open>
  The function: the outer \<open>except Exception\<close> turns every exception of the acquisition
  and of the inner block into the empty list.
\<close>

definition get_uscf_player_data ::
  "search_env \<Rightarrow> browser \<Rightarrow> string \<Rightarrow> int \<Rightarrow> browser \<times> (string \<times> pyval) list list result" where
  "get_uscf_player_data env w search_term max_results =
     (let search_url = URL @ ''/?fuzzy='' @ search_term
      in case setup_chrome_driver (acquisition env) w of
           (w1, l, Inl e) \<Rightarrow> (w1, Inr [])
         | (w1, l, Inr driver) \<Rightarrow>
             (case search_with_driver env w1 driver search_url max_results of
                (w2, Inl e) \<Rightarrow> (w2, Inr [])
              | (w2, Inr players) \<Rightarrow> (w2, Inr players)))"

text \<open>What a rating field may hold: \<open>None\<close> or an integer that is not negative.\<close>

fun rating_value_ok :: "pyval \<Rightarrow> bool" where
  "rating_value_ok PNone = True"
| "rating_value_ok (PInt n) = (0 \<le> n)"
| "rating_value_ok v = False"

section \<open>test.py: the profile lookup\<close>

text \<open>
  What the two sites answer to one lookup: whether Chrome starts, whether each page
  loads (\<open>None\<close> when \<open>driver.get\<close> returns), and for each awaited node the text
  read from it or the exception of the wait.
\<close>

record profile_env =
  chrome_start :: "exc option"
  get_beta :: "exc option"
  rating_node :: "string result"
  get_msa :: "exc option"
  expiration_node :: "string result"

text \<open>The exceptions named in \<open>except (TimeoutException, NoSuchElementException)\<close>.\<close>

definition lookup_failure :: "exc \<Rightarrow> bool" where
  "lookup_failure e = (e = TimeoutException \<or> e = NoSuchElementException)"

text \<open>
  The statements of the \<open>try\<close> after the driver was created. \<open>Inr None\<close> is
  \<open>return None\<close>, \<open>Inl e\<close> an exception that no clause catches.
\<close>

definition lookup_with_driver :: "profile_env \<Rightarrow> string \<Rightarrow> (string \<times> pyval) list option result" where
  "lookup_with_driver env player_id =
     (let beta = (case get_beta env of
                    Some e \<Rightarrow> Inl e
                  | None \<Rightarrow>
                      (case rating_node env of
                         Inl e \<Rightarrow> Inl e
                       | Inr t \<Rightarrow> Inr (PStr (py_strip t))));
          rating = (case beta of
                      Inl e \<Rightarrow> if lookup_failure e then Inr PNone else Inl e
                    | Inr v \<Rightarrow> Inr v);
          body = (case rating of
                    Inl e \<Rightarrow> Inl e
                  | Inr rating \<Rightarrow>
                      (case get_msa env of
                         Some e \<Rightarrow> Inl e
                       | None \<Rightarrow>
                           (case expiration_node env of
                              Inl e \<Rightarrow> Inl e
                            | Inr t \<Rightarrow>
                                Inr (Some [(''rating'', if truthy rating then rating else PStr ''Not found''),
                                           (''expiration_date'', PStr (py_strip t)),
                                           (''player_id'', PStr player_id)]))))
      in case body of
           Inl e \<Rightarrow> if lookup_failure e then Inr None else Inl e
         | Inr d \<Rightarrow> Inr d)"

text \<open>
  The function. The driver is created inside the \<open>try\<close>: when that raises, the name
  \<open>driver\<close> is unbound in the \<open>finally\<close> clause, and \<open>driver.quit()\<close> raises
  \<open>UnboundLocalError\<close> in place of whatever the \<open>try\<close> had raised or returned.
\<close>

definition get_uschess_info ::
  "profile_env \<Rightarrow> browser \<Rightarrow> string \<Rightarrow> browser \<times> (string \<times> pyval) list option result" where
  "get_uschess_info env w player_id =
     (case new_driver (chrome_start env) w of
        (w1, Inl e) \<Rightarrow> (w1, Inl UnboundLocalError)
      | (w1, Inr driver) \<Rightarrow> (quit driver w1, lookup_with_driver env player_id))"

section \<open>test.py: the record sink\<close>

text \<open>
  The SQLite database: tables by name; a table has its columns and its rows, a row
  gives a value to each column. The schema is not part of the scripts and is a
  parameter. A statement on a missing table or column raises \<open>OperationalError\<close>, and
  so does adding a column that is there. Column names are compared as they are written.
\<close>

datatype sqlval = Null | IntV int | TextV string

record table =
  columns :: "string list"
  rows :: "(string \<times> sqlval) list list"






section \<open>pop.py: the form search and the table parser\<close>

text \<open>
  The patterns of the fallback stage, as functions on strings.
  \<open>re.search('<tbody>(.*?)</tbody>')\<close> with \<open>DOTALL\<close>: the text between the first
  \<open><tbody>\<close> and the first \<open></tbody>\<close> after it.
\<close>

definition search_tbody :: "string \<Rightarrow> string option" where
  "search_tbody html =
     (case find_sub ''<tbody>'' html of
        None \<Rightarrow> None
      | Some (before, rest) \<Rightarrow>
          (case find_sub ''</tbody>'' rest of
             None \<Rightarrow> None
           | Some (tbody_content, after) \<Rightarrow> Some tbody_content))"

text \<open>
  A match of \<open><tag[^>]*>(.*?)</tag>\<close> at the start of a string: the group and the text
  after the match.
\<close>

definition match_tag :: "string \<Rightarrow> string \<Rightarrow> (string \<times> string) option" where
  "match_tag tag s =
     (if prefix (CHR ''<'' # tag) s then
        (case find_sub ''>'' (drop (Suc (length tag)) s) of
           None \<Rightarrow> None
         | Some (attrs, rest) \<Rightarrow> find_sub (''</'' @ tag @ ''>'') rest)
      else None)"

lemma match_tag_shorter:
  "match_tag tag s = Some (g, rest) \<Longrightarrow> length rest < length s"
  by (auto simp: match_tag_def split: if_splits option.splits
           dest!: find_sub_shorter)

text \<open>\<open>re.findall\<close> of that pattern: the groups of the matches, left to right.\<close>

function findall_tag :: "string \<Rightarrow> string \<Rightarrow> string list" where
  "findall_tag tag [] = []"
| "findall_tag tag (c # cs) =
     (case match_tag tag (c # cs) of
        None \<Rightarrow> findall_tag tag cs
      | Some (g, rest) \<Rightarrow> g # findall_tag tag rest)"
  by pat_completeness auto
termination
  by (relation "measure (\<lambda>(tag, s). length s)") (auto dest: match_tag_shorter)

declare findall_tag.simps(2) [simp del]

text \<open>\<open>re.sub('<[^>]+>', '', s)\<close>\<close>

function sub_tags :: "string \<Rightarrow> string" where
  "sub_tags [] = []"
| "sub_tags (c # cs) =
     (if c = CHR ''<'' then
        (case find_sub ''>'' cs of
           None \<Rightarrow> c # sub_tags cs
         | Some (b, a) \<Rightarrow> if b \<noteq> [] then sub_tags a else c # sub_tags cs)
      else c # sub_tags cs)"
  by pat_completeness auto
termination
  by (relation "measure length") (auto dest: find_sub_shorter)

declare sub_tags.simps(2) [simp del]

text \<open>The lines the parsing step prints when the structured parse is all NaN.\<close>

datatype parse_log =
    AllNaN
  | FoundRows nat
  | RowCells nat nat
  | CellText nat string

fun report_cells :: "nat \<Rightarrow> string list \<Rightarrow> parse_log list" where
  "report_cells j [] = []"
| "report_cells j (cell_html # cs) =
     CellText j (py_strip (sub_tags cell_html)) # report_cells (Suc j) cs"

fun report_rows :: "nat \<Rightarrow> string list \<Rightarrow> parse_log list" where
  "report_rows i [] = []"
| "report_rows i (row_html # rs) =
     (let cell_matches = findall_tag ''td'' row_html
      in RowCells i (length cell_matches) # report_cells 0 cell_matches @ report_rows (Suc i) rs)"

definition fallback_stage :: "string \<Rightarrow> parse_log list" where
  "fallback_stage html_table =
     AllNaN #
     (case search_tbody html_table of
        None \<Rightarrow> []
      | Some tbody_content \<Rightarrow>
          (let row_matches = findall_tag ''tr'' tbody_content
           in FoundRows (length row_matches) # report_rows 0 (take 3 row_matches)))"

text \<open>
  A data frame as \<open>pd.read_html\<close> returns it (pandas is not part of the scripts: its
  answer is a parameter): the column labels, which \<open>read_html\<close> keeps distinct, and the
  rows of cells.
\<close>

datatype cell = NaN | Txt string | Num int

record frame =
  header :: "string list"
  body :: "cell list list"

text \<open>\<open>results_df.isnull().all().all()\<close>\<close>

definition all_null :: "frame \<Rightarrow> bool" where
  "all_null df = list_all (list_all (\<lambda>c. c = NaN)) (body df)"

definition canonical_columns :: "string list" where
  "canonical_columns =
     [''Name'', ''Member ID'', ''Regular Rating'', ''Quick Rating'', ''Blitz Rating'',
      ''Online Regular'', ''Online Quick'', ''Online Blitz'', ''Correspondence'', ''State'',
      ''Membership Expires'']"

text \<open>The function applied to the cells of the Name column.\<close>

fun clean_name :: "cell \<Rightarrow> cell" where
  "clean_name (Txt x) = Txt (py_strip (after_last [CHR 0x0A] x))"
| "clean_name c = c"

fun index_of :: "'a \<Rightarrow> 'a list \<Rightarrow> nat" where
  "index_of x [] = 0"
| "index_of x (y # ys) = (if x = y then 0 else Suc (index_of x ys))"

text \<open>
  The structured stage after the NaN test: a missing Name column raises \<open>KeyError\<close>,
  and assigning the eleven names to a frame of another width raises \<open>ValueError\<close>.
\<close>

definition clean_frame :: "frame \<Rightarrow> frame result" where
  "clean_frame df =
     (if ''Name'' \<notin> set (header df) then Inl KeyError
      else if length (header df) \<noteq> length canonical_columns then Inl ValueError
      else Inr \<lparr>header = canonical_columns,
                body = map (\<lambda>r. r[index_of ''Name'' (header df) := clean_name (r ! index_of ''Name'' (header df))])
                           (body df)\<rparr>)"

text \<open>What the function returns: the frame, or one of its messages.\<close>

datatype outcome =
    Table frame
  | NoData
  | StructureIssue
  | ParseError exc
  | TimeoutError exc
  | UnexpectedError exc

text \<open>Step 5: the two stages, on the table's HTML and the answer of \<open>read_html\<close>.\<close>

definition parse_table :: "string \<Rightarrow> frame list result \<Rightarrow> parse_log list \<times> outcome" where
  "parse_table html_table data_frame =
     (case data_frame of
        Inl e \<Rightarrow> ([], ParseError e)
      | Inr [] \<Rightarrow> ([], NoData)
      | Inr (results_df # others) \<Rightarrow>
          if all_null results_df then (fallback_stage html_table, StructureIssue)
          else (case clean_frame results_df of
                  Inl e \<Rightarrow> ([], ParseError e)
                | Inr f \<Rightarrow> ([], Table f)))"

text \<open>
  What the site answers to the form search: whether Chrome starts, whether the page
  loads, whether the input, the button and the first row are found in time, and the
  table's outer HTML, or the exception of reading it (\<open>TypeError\<close> from the slicing
  when the attribute is \<open>None\<close>). The wait for the first data cell is inside a bare
  \<open>except\<close> and its outcome is discarded; the search term only goes into the page.
\<close>

record form_env =
  driver_start :: "exc option"
  get_page :: "exc option"
  name_input :: "exc option"
  search_button :: "exc option"
  first_row :: "exc option"
  table_html :: "string result"
  read_html :: "string \<Rightarrow> frame list result"

text \<open>Steps 1 to 4: the table's HTML, or the first exception.\<close>

definition locate_table :: "form_env \<Rightarrow> string result" where
  "locate_table env =
     (case get_page env of
        Some e \<Rightarrow> Inl e
      | None \<Rightarrow>
          (case name_input env of
             Some e \<Rightarrow> Inl e
           | None \<Rightarrow>
               (case search_button env of
                  Some e \<Rightarrow> Inl e
                | None \<Rightarrow>
                    (case first_row env of
                       Some e \<Rightarrow> Inl e
                     | None \<Rightarrow> table_html env))))"

text \<open>
  The function \<open>get_uscf_player_data\<close> of pop.py (search\_players.py has one of the
  same name). The driver is created before the \<open>try\<close>: when that raises, the function
  raises.
\<close>

definition get_uscf_player_data_pop ::
  "form_env \<Rightarrow> browser \<Rightarrow> browser \<times> parse_log list \<times> outcome result" where
  "get_uscf_player_data_pop env w =
     (case new_driver (driver_start env) w of
        (w1, Inl e) \<Rightarrow> (w1, [], Inl e)
      | (w1, Inr driver) \<Rightarrow>
          (case locate_table env of
             Inl e \<Rightarrow>
               (quit driver w1, [],
                Inr (if lookup_failure e then TimeoutError e else UnexpectedError e))
           | Inr html_table \<Rightarrow>
               (case parse_table html_table (read_html env html_table) of
                  (l, out) \<Rightarrow> (quit driver w1, l, Inr out))))"

section \<open>The notions of the specification\<close>

text \<open>
  The notions in which the claims are stated, written from the words of the
  specification and kept apart from the functions of the scripts.
\<close>

text \<open>The first value of a list that is not \<open>None\<close>; \<open>None\<close> when there is none.\<close>

fun first_non_null :: "pyval list \<Rightarrow> pyval" where
  "first_non_null [] = PNone"
| "first_non_null (x # xs) = (if x \<noteq> PNone then x else first_non_null xs)"

text \<open>The cards of a list that parse, as their player dictionaries, in order.\<close>

definition successfully_parsed :: "card list \<Rightarrow> (string \<times> pyval) list list" where
  "successfully_parsed cs =
     concat (map (\<lambda>c. case parse_card c of Inl e \<Rightarrow> [] | Inr p \<Rightarrow> [p]) cs)"


text \<open>The rows of a table after \<open>UPDATE ... SET col = v WHERE id = pid\<close>.\<close>

definition updated :: "string \<Rightarrow> sqlval \<Rightarrow> sqlval \<Rightarrow> table \<Rightarrow> table" where
  "updated col v pid t =
     t\<lparr>rows := map (\<lambda>r. if pid \<noteq> Null \<and> map_of r ''id'' = Some pid then dict_set r col v else r) (rows t)\<rparr>"



text \<open>\<open>occurs pat s\<close>: the text \<open>pat\<close> begins somewhere in \<open>s\<close>.\<close>

fun occurs :: "string \<Rightarrow> string \<Rightarrow> bool" where
  "occurs pat [] = (pat = [])"
| "occurs pat (c # cs) = (prefix pat (c # cs) \<or> occurs pat cs)"

text \<open>
  A table body written out row by row. A row is the text before it, the attributes of
  its \<open>tr\<close> tag and its content; in a well-formed row no \<open><tr\<close> begins in the text
  before it, the attributes hold no \<open>>\<close>, and no \<open></tr>\<close> begins in the content.
  (That no occurrence of a pattern begins inside a text which the pattern follows is
  written with \<open>occurs\<close> on the text extended by the pattern without its last
  character.)
\<close>

fun row_block :: "string \<times> string \<times> string \<Rightarrow> string" where
  "row_block (gap, attrs, inner) = gap @ ''<tr'' @ attrs @ ''>'' @ inner @ ''</tr>''"

fun row_ok :: "string \<times> string \<times> string \<Rightarrow> bool" where
  "row_ok (gap, attrs, inner) =
     (\<not> occurs ''<tr'' (gap @ ''<t'') \<and> CHR ''>'' \<notin> set attrs \<and> \<not> occurs ''</tr>'' (inner @ ''</tr''))"

fun row_inner :: "string \<times> string \<times> string \<Rightarrow> string" where
  "row_inner (gap, attrs, inner) = inner"

section \<open>Concrete inputs\<close>

text \<open>A machine where the managed driver fails and a driver is installed at one path.\<close>

definition acq_example :: acq_env where
  "acq_example =
     \<lparr>managed_driver = Some OtherException,
      path_exists = (\<lambda>p. p = ''/usr/bin/chromedriver''),
      chrome_at = (\<lambda>p. if p = ''/usr/bin/chromedriver'' then None else Some WebDriverException),
      chrome_plain = Some WebDriverException\<rparr>"

text \<open>A badge and a card where every element is found.\<close>

definition badge_of :: "string \<Rightarrow> string \<Rightarrow> badge" where
  "badge_of ty v = \<lparr>type_text = Inr ty, value_text = Inr v\<rparr>"

definition card_of :: "string \<Rightarrow> string \<Rightarrow> badge list \<Rightarrow> card" where
  "card_of n member bs =
     \<lparr>name_text = Inr n,
      link_href = Inr (Some (''https://beta-ratings.uschess.org/player/'' @ member)),
      state_text = Inr ''NY'',
      rating_badges = Inr bs,
      expiration_span = Inr ''Exp: 2026-01-31''\<rparr>"

definition card_example :: card where
  "card_example =
     card_of '' Smith, John '' ''14970943''
       [badge_of ''R'' '' 1500 '', badge_of ''OB'' ''Unr.'', badge_of ''X'' ''12'']"

definition player_example :: "(string \<times> pyval) list" where
  "player_example =
     [(''name'', PStr ''Smith, John''), (''memberId'', PStr ''14970943''), (''state'', PStr ''NY''),
      (''ratings'', PDict [(''regular'', PInt 1500), (''quick'', PNone), (''blitz'', PNone),
         (''online_regular'', PNone), (''online_quick'', PNone), (''online_blitz'', PNone)]),
      (''uscf_id'', PStr ''14970943''), (''rating'', PInt 1500),
      (''expiration_date'', PStr ''2026-01-31'')]"

text \<open>A card whose regular rating is shown as 0.\<close>

definition card_zero :: card where
  "card_zero = card_of ''Doe, Jane'' ''12345678'' [badge_of ''R'' ''0'', badge_of ''Q'' ''1200'']"

text \<open>
  A search whose page shows three cards, the second without its name element, and the
  same search on a machine where no driver can be started.
\<close>

definition card_noname :: card where
  "card_noname = card_example\<lparr>name_text := Inl NoSuchElementException\<rparr>"

definition search_example :: search_env where
  "search_example =
     \<lparr>acquisition = acq_example,
      navigate = (\<lambda>url. None),
      find_cards = Inr [card_example, card_noname, card_zero]\<rparr>"

definition acq_none :: acq_env where
  "acq_none =
     \<lparr>managed_driver = Some OtherException,
      path_exists = (\<lambda>p. False),
      chrome_at = (\<lambda>p. Some WebDriverException),
      chrome_plain = Some WebDriverException\<rparr>"

definition search_no_driver :: search_env where
  "search_no_driver = search_example\<lparr>acquisition := acq_none\<rparr>"

definition player_zero :: "(string \<times> pyval) list" where
  "player_zero =
     [(''name'', PStr ''Doe, Jane''), (''memberId'', PStr ''12345678''), (''state'', PStr ''NY''),
      (''ratings'', PDict [(''regular'', PInt 0), (''quick'', PInt 1200), (''blitz'', PNone),
         (''online_regular'', PNone), (''online_quick'', PNone), (''online_blitz'', PNone)]),
      (''uscf_id'', PStr ''12345678''), (''rating'', PInt 1200),
      (''expiration_date'', PStr ''2026-01-31'')]"

text \<open>
  Profile lookups: one where the rating node never appears, one where the second page
  fails to load, one where Chrome does not start.
\<close>

definition profile_example :: profile_env where
  "profile_example =
     \<lparr>chrome_start = None,
      get_beta = None,
      rating_node = Inl TimeoutException,
      get_msa = None,
      expiration_node = Inr '' 2026-01-31 ''\<rparr>"

definition profile_broken :: profile_env where
  "profile_broken = profile_example\<lparr>get_msa := Some WebDriverException\<rparr>"

definition profile_no_chrome :: profile_env where
  "profile_no_chrome = profile_example\<lparr>chrome_start := Some WebDriverException\<rparr>"

text \<open>A form search where the results never appear.\<close>

definition form_timeout :: form_env where
  "form_timeout =
     \<lparr>driver_start = None,
      get_page = None,
      name_input = None,
      search_button = None,
      first_row = Some TimeoutException,
      table_html = Inl NoSuchElementException,
      read_html = (\<lambda>html. Inl ValueError)\<rparr>"





text \<open>
  A structured parse that is all NaN, a table whose body tag is plain, and a table
  whose body tag has an attribute.
\<close>

definition frame_null :: frame where
  "frame_null = \<lparr>header = canonical_columns, body = [replicate 11 NaN, replicate 11 NaN]\<rparr>"

definition rows_example :: "(string \<times> string \<times> string) list" where
  "rows_example =
     [([], [], ''<td><span>US</span> Smith</td><td>14970943</td>''),
      ('' '', '' class=odd'', ''<td></td>'')]"

definition html_example :: string where
  "html_example =
     ''<table class=table-bordered><thead><tr><th>Name</th></tr></thead>'' @ ''<tbody>'' @
       concat (map row_block rows_example) @ '' '' @ ''</tbody>'' @ ''</table>''"

definition html_attribute :: string where
  "html_attribute =
     ''<table class=table-bordered><tbody id=results>'' @ ''<tr><td>Smith</td></tr>'' @ ''</tbody></table>''"

section \<open>Properties\<close>

subsection \<open>Driver acquisition\<close>

lemma tried_append: "tried (l1 @ l2) = tried l1 @ tried l2"
  by (induction l1 rule: tried.induct) simp_all

lemma try_paths_first_success:
  "first_success env w (map SystemPath (filter (\<lambda>p. path_exists env p \<or> p = ''chromedriver'') ps) @ rest) =
     (case try_paths env w ps of
        (w', l, Some d) \<Rightarrow> (w', tried l, Inr d)
      | (w', l, None) \<Rightarrow>
          (case first_success env w' rest of (w'', tr, r) \<Rightarrow> (w'', tried l @ tr, r)))"
proof (induction ps arbitrary: w)
  case Nil
  show ?case by (simp split: prod.splits)
next
  case (Cons p ps)
  show ?case
  proof (cases "path_exists env p \<or> p = ''chromedriver''")
    case False
    then show ?thesis using Cons.IH [of w] by simp
  next
    case True
    show ?thesis
    proof (cases "chrome_at env p")
      case None
      with True show ?thesis by (simp add: new_driver_def)
    next
      case (Some e)
      with True show ?thesis using Cons.IH [of w]
        by (simp add: new_driver_def split: prod.splits option.splits)
    qed
  qed
qed

lemma setup_refines:
  "(case setup_chrome_driver env w of (w', l, r) \<Rightarrow> (w', tried l, r)) =
     first_success env w (strategies env)"
proof (cases "managed_driver env")
  case None
  then show ?thesis by (simp add: setup_chrome_driver_def strategies_def new_driver_def)
next
  case (Some e1)
  have "first_success env w (strategies env) =
     (case first_success env w
             (map SystemPath (filter (\<lambda>p. path_exists env p \<or> p = ''chromedriver'') possible_paths)
                @ [FrameworkLocated])
      of (w'', tr, r) \<Rightarrow> (w'', (Managed, Some e1) # tr, r))"
    using Some by (simp add: strategies_def new_driver_def)
  also have "\<dots> = (case setup_chrome_driver env w of (w', l, r) \<Rightarrow> (w', tried l, r))"
    unfolding try_paths_first_success using Some
    by (cases "chrome_plain env")
       (auto simp: setup_chrome_driver_def new_driver_def tried_append split: prod.splits option.splits)
  finally show ?thesis by simp
qed

lemma first_success_trace:
  "first_success env w ss = (w', tr, r) \<Longrightarrow>
     tr = map (\<lambda>s. (s, strategy_outcome env s)) (take (length tr) ss) \<and>
     (case r of
        Inl e \<Rightarrow> e = WebDriverException \<and> length tr = length ss \<and> list_all (\<lambda>x. snd x \<noteq> None) tr
      | Inr d \<Rightarrow> tr \<noteq> [] \<and> snd (last tr) = None \<and> list_all (\<lambda>x. snd x \<noteq> None) (butlast tr))"
proof (induction ss arbitrary: w w' tr r)
  case Nil
  then show ?case by auto
next
  case (Cons s ss)
  show ?case
  proof (cases "strategy_outcome env s")
    case None
    with Cons.prems show ?thesis by (auto simp: new_driver_def)
  next
    case (Some e)
    obtain w2 tr2 r2 where fs: "first_success env w ss = (w2, tr2, r2)"
      by (cases "first_success env w ss") auto
    with Some Cons.prems have tr: "tr = (s, Some e) # tr2" and r: "r = r2"
      by (auto simp: new_driver_def)
    from Cons.IH [OF fs] show ?thesis unfolding tr r using Some
      by (cases r2) auto
  qed
qed

lemma acq_example_run:
  "setup_chrome_driver acq_example fresh =
     (\<lparr>created = 1, live = [0]\<rparr>,
      [AttemptManaged, ManagedFailed OtherException, AttemptSystem, SystemOk ''/usr/bin/chromedriver''],
      Inr 0)"
  by (simp add: setup_chrome_driver_def acq_example_def fresh_def new_driver_def possible_paths_def)

text \<open>
  Claim C9. \<open>setup_chrome_driver\<close> is the first-success iteration over the fixed
  list of strategies: the managed driver, then the well-known paths that exist (and
  \<open>chromedriver\<close> on the search path, always), then the driver the framework finds
  itself. The strategies its log shows as tried are an initial segment of that list, in
  that order, each with the outcome the machine gave it. When it raises, the exception is
  \<open>WebDriverException\<close>, every strategy of the list was tried and every one failed.
  When it returns a driver, the last strategy tried is the one that succeeded, every
  strategy before it failed, and none after it was tried.
\<close>

theorem driver_acquisition_order:
  "setup_chrome_driver env w = (w', l, r) \<Longrightarrow>
     first_success env w (strategies env) = (w', tried l, r) \<and>
     tried l = map (\<lambda>s. (s, strategy_outcome env s)) (take (length (tried l)) (strategies env)) \<and>
     (case r of
        Inl e \<Rightarrow> e = WebDriverException \<and> length (tried l) = length (strategies env) \<and>
                 list_all (\<lambda>x. snd x \<noteq> None) (tried l)
      | Inr d \<Rightarrow> tried l \<noteq> [] \<and> snd (last (tried l)) = None \<and>
                 list_all (\<lambda>x. snd x \<noteq> None) (butlast (tried l)))"
proof -
  assume a: "setup_chrome_driver env w = (w', l, r)"
  have fs: "first_success env w (strategies env) = (w', tried l, r)"
    using setup_refines [of env w] a by simp
  from first_success_trace [OF fs] fs show ?thesis by simp
qed

theorem driver_acquisition_order_witness:
  "setup_chrome_driver acq_example fresh =
     (\<lparr>created = 1, live = [0]\<rparr>,
      [AttemptManaged, ManagedFailed OtherException, AttemptSystem, SystemOk ''/usr/bin/chromedriver''],
      Inr 0) \<and>
   first_success acq_example fresh (strategies acq_example) =
     (\<lparr>created = 1, live = [0]\<rparr>,
      [(Managed, Some OtherException), (SystemPath ''/usr/bin/chromedriver'', None)], Inr 0) \<and>
   strategies acq_example =
     [Managed, SystemPath ''/usr/bin/chromedriver'', SystemPath ''chromedriver'', FrameworkLocated]"
proof -
  have st: "strategies acq_example =
     [Managed, SystemPath ''/usr/bin/chromedriver'', SystemPath ''chromedriver'', FrameworkLocated]"
    by (simp add: strategies_def acq_example_def possible_paths_def)
  from driver_acquisition_order [OF acq_example_run]
  have "first_success acq_example fresh (strategies acq_example) =
     (\<lparr>created = 1, live = [0]\<rparr>,
      [(Managed, Some OtherException), (SystemPath ''/usr/bin/chromedriver'', None)], Inr 0)"
    by simp
  with st acq_example_run show ?thesis by simp
qed

subsection \<open>Rating badges\<close>

lemma digit_code_not_space_code:
  "48 \<le> n \<and> n \<le> 57 \<or> n \<in> set [178, 179, 185] \<Longrightarrow>
     n \<notin> set [9, 10, 11, 12, 13, 28, 29, 30, 31, 32, 133, 160]" for n :: nat
  by auto

lemma isdigit_char_not_space: "isdigit_char c \<Longrightarrow> \<not> isspace c"
  unfolding isdigit_char_def is_decimal_def isspace_def by (rule digit_code_not_space_code)


lemma digit_code_not_sign:
  "48 \<le> n \<and> n \<le> 57 \<or> n \<in> set [178, 179, 185] \<Longrightarrow> n \<noteq> 45 \<and> n \<noteq> 43 \<and> n \<noteq> 95" for n :: nat
  by auto

lemma sign_not_digit: 
  assumes "isdigit_char c" shows "c \<noteq> CHR ''-'' \<and> c \<noteq> CHR ''+'' \<and> c \<noteq> CHR ''_''"
proof -
  from assms have "(of_char c :: nat) \<noteq> 45 \<and> (of_char c :: nat) \<noteq> 43 \<and> (of_char c :: nat) \<noteq> 95"
    unfolding isdigit_char_def is_decimal_def by (rule digit_code_not_sign)
  then show ?thesis by auto
qed

lemma strip_id:
  assumes "list_all (\<lambda>c. \<not> isspace c) s"
  shows "py_strip s = s"
proof -
  have a: "dropWhile isspace s = s"
    using assms by (cases s) auto
  have "list_all (\<lambda>c. \<not> isspace c) (rev s)" using assms by (simp add: list_all_iff)
  then have b: "dropWhile isspace (rev s) = rev s"
    by (cases "rev s") auto
  show ?thesis by (simp add: py_strip_def a b)
qed

lemma isdigit_strip: "isdigit s \<Longrightarrow> py_strip s = s"
  by (rule strip_id) (auto simp: isdigit_def list_all_iff dest: isdigit_char_not_space)

lemma digit_value_nonneg: "is_decimal c \<Longrightarrow> 0 \<le> digit_value c"
  by (simp add: is_decimal_def digit_value_def)

lemma foldl_digits_nonneg:
  "0 \<le> a \<Longrightarrow> list_all is_decimal ds \<Longrightarrow> 0 \<le> foldl (\<lambda>a c. 10 * a + digit_value c) a ds"
proof (induction ds arbitrary: a)
  case Nil
  then show ?case by simp
next
  case (Cons d ds)
  from Cons.prems have "0 \<le> 10 * a + digit_value d"
    using digit_value_nonneg [of d] by simp
  with Cons show ?case by simp
qed

lemma digits_value_nonneg: "list_all is_decimal ds \<Longrightarrow> 0 \<le> digits_value ds"
  unfolding digits_value_def by (rule foldl_digits_nonneg) simp_all

lemma digits_ok_decimal:
  "digits_ok p u \<Longrightarrow> list_all is_decimal (filter (\<lambda>c. c \<noteq> CHR ''_'') u)"
proof (induction u arbitrary: p)
  case Nil
  then show ?case by simp
next
  case (Cons c u)
  show ?case
  proof (cases "is_decimal c")
    case True
    with Cons.prems have "digits_ok True u" by simp
    from Cons.IH [OF this] True show ?thesis by simp
  next
    case False
    with Cons.prems have c: "c = CHR ''_''" and "digits_ok False u" by (simp_all split: if_splits)
    from Cons.IH [OF this(2)] c show ?thesis by simp
  qed
qed

lemma digits_ok_run: "list_all is_decimal t \<Longrightarrow> digits_ok p t = (p \<or> t \<noteq> [])"
  by (induction t arbitrary: p) simp_all

lemma py_int_isdigit:
  assumes "isdigit t"
  shows "py_int t = (if list_all is_decimal t then Inr (digits_value t) else Inl ValueError)"
proof -
  from assms have ne: "t \<noteq> []" and all: "list_all isdigit_char t" by (simp_all add: isdigit_def)
  from ne obtain c cs where t: "t = c # cs" by (cases t) auto
  with all have "isdigit_char c" by simp
  from sign_not_digit [OF this] t have hd: "hd t \<noteq> CHR ''-''" "hd t \<noteq> CHR ''+''" by simp_all
  have "\<forall>x \<in> set t. x \<noteq> CHR ''_''"
    using all sign_not_digit by (auto simp: list_all_iff)
  then have nous: "filter (\<lambda>c. c \<noteq> CHR ''_'') t = t" by simp
  have ok: "digits_ok False t = list_all is_decimal t"
  proof
    assume "digits_ok False t"
    from digits_ok_decimal [OF this] show "list_all is_decimal t" by (simp only: nous)
  next
    assume "list_all is_decimal t"
    then show "digits_ok False t" using ne by (simp add: digits_ok_run)
  qed
  show ?thesis
    unfolding py_int_def isdigit_strip [OF assms] Let_def
    using hd ne by (simp add: nous ok)
qed


lemma rating_of_text_ok: "rating_of_text t = Inr v \<Longrightarrow> rating_value_ok v"
  by (auto simp: rating_of_text_def py_int_isdigit digits_value_nonneg split: if_splits)

lemma dict_set_all: "list_all P d \<Longrightarrow> P (k, v) \<Longrightarrow> list_all P (dict_set d k v)"
  by (induction d k v rule: dict_set.induct) auto

lemma parse_badge_cases:
  "parse_badge r b = Inr r' \<Longrightarrow> r' = r \<or> (\<exists>ty k t v. rating_key ty = Some k \<and> rating_of_text t = Inr v \<and> r' = dict_set r k v)"
  unfolding parse_badge_def by (auto split: sum.splits option.splits)

lemma parse_badge_ok:
  assumes "list_all (\<lambda>kv. rating_value_ok (snd kv)) r" and "parse_badge r b = Inr r'"
  shows "list_all (\<lambda>kv. rating_value_ok (snd kv)) r'"
proof -
  from parse_badge_cases [OF assms(2)] show ?thesis
  proof
    assume "r' = r"
    with assms(1) show ?thesis by simp
  next
    assume "\<exists>ty k t v. rating_key ty = Some k \<and> rating_of_text t = Inr v \<and> r' = dict_set r k v"
    then obtain k t v where "rating_of_text t = Inr v" and r': "r' = dict_set r k v" by blast
    then have "rating_value_ok v" by (simp add: rating_of_text_ok)
    with assms(1) show ?thesis unfolding r' by (intro dict_set_all) simp_all
  qed
qed

lemma parse_badges_ok:
  "list_all (\<lambda>kv. rating_value_ok (snd kv)) r \<Longrightarrow>
     list_all (\<lambda>kv. rating_value_ok (snd kv)) (parse_badges r bs)"
proof (induction bs arbitrary: r)
  case Nil
  then show ?case by simp
next
  case (Cons b bs)
  show ?case
  proof (cases "parse_badge r b")
    case (Inl e)
    with Cons show ?thesis by simp
  next
    case (Inr r')
    from parse_badge_ok [OF Cons.prems Inr] Inr Cons.IH show ?thesis by simp
  qed
qed

lemma initial_ratings_ok: "list_all (\<lambda>kv. rating_value_ok (snd kv)) initial_ratings"
  by (simp add: initial_ratings_def)

lemma dict_set_keys: "k \<in> set (map fst d) \<Longrightarrow> map fst (dict_set d k v) = map fst d"
  by (induction d k v rule: dict_set.induct) auto

lemma map_of_dict_set: "map_of (dict_set d k v) k' = (if k' = k then Some v else map_of d k')"
  by (induction d k v rule: dict_set.induct) auto

lemma rating_key_initial: "rating_key ty = Some k \<Longrightarrow> k \<in> set (map fst initial_ratings)"
  by (simp add: rating_key_def initial_ratings_def split: if_splits)

lemma parse_badge_keys:
  assumes "map fst r = map fst initial_ratings" and "parse_badge r b = Inr r'"
  shows "map fst r' = map fst initial_ratings"
proof -
  from parse_badge_cases [OF assms(2)] show ?thesis
  proof
    assume "r' = r"
    with assms(1) show ?thesis by simp
  next
    assume "\<exists>ty k t v. rating_key ty = Some k \<and> rating_of_text t = Inr v \<and> r' = dict_set r k v"
    then obtain ty k v where k: "rating_key ty = Some k" and r': "r' = dict_set r k v" by blast
    from rating_key_initial [OF k] assms(1) have "k \<in> set (map fst r)" by simp
    from dict_set_keys [OF this] assms(1) show ?thesis unfolding r' by simp
  qed
qed

lemma parse_badges_keys:
  "map fst r = map fst initial_ratings \<Longrightarrow> map fst (parse_badges r bs) = map fst initial_ratings"
proof (induction bs arbitrary: r)
  case Nil
  then show ?case by simp
next
  case (Cons b bs)
  show ?case
  proof (cases "parse_badge r b")
    case (Inl e)
    with Cons show ?thesis by simp
  next
    case (Inr r')
    from parse_badge_keys [OF Cons.prems Inr] Inr Cons.IH show ?thesis by simp
  qed
qed

lemma parse_card_shape:
  assumes "parse_card c = Inr p"
  shows "\<exists>n url uscf_id bs pr st ex.
           name_text c = Inr n \<and> link_href c = Inr (Some url) \<and> rating_badges c = Inr bs \<and>
           primary_rating (parse_badges initial_ratings bs) = Inr pr \<and>
           p = [(''name'', PStr (py_strip n)), (''memberId'', PStr uscf_id), (''state'', st),
                (''ratings'', PDict (parse_badges initial_ratings bs)), (''uscf_id'', PStr uscf_id),
                (''rating'', pr), (''expiration_date'', ex)]"
  using assms unfolding parse_card_def Let_def
  by (auto split: sum.splits option.splits)

lemma card_example_parsed: "parse_card card_example = Inr player_example"
  by code_simp




subsection \<open>The primary rating\<close>

lemma keys_lookup: "map fst r = map fst initial_ratings \<Longrightarrow> k \<in> set (map fst initial_ratings) \<Longrightarrow> \<exists>v. map_of r k = Some v"
  by (metis map_of_eq_None_iff not_None_eq set_map)

lemma truthy_rating: "rating_value_ok v \<Longrightarrow> truthy v = (v \<noteq> PNone \<and> v \<noteq> PInt 0)"
  by (cases v) auto

text \<open>
  Claim C5, amended. The primary rating of a search-result record is the first value, in
  the order regular, quick, blitz, that is neither \<open>None\<close> nor 0; when there is none
  it is the blitz value. So when none of the three ratings is 0 it is the first value
  that is not \<open>None\<close>, and \<open>None\<close> when all three are.
\<close>

theorem primary_rating_choice:
  "parse_card c = Inr p \<longrightarrow>
     (\<exists>ratings r q b.
        map_of p ''ratings'' = Some (PDict ratings) \<and>
        map_of ratings ''regular'' = Some r \<and> map_of ratings ''quick'' = Some q \<and>
        map_of ratings ''blitz'' = Some b \<and>
        map_of p ''rating'' =
          Some (if r \<noteq> PNone \<and> r \<noteq> PInt 0 then r else if q \<noteq> PNone \<and> q \<noteq> PInt 0 then q else b) \<and>
        (r \<noteq> PInt 0 \<and> q \<noteq> PInt 0 \<and> b \<noteq> PInt 0 \<longrightarrow>
           map_of p ''rating'' = Some (first_non_null [r, q, b])))"
proof
  assume "parse_card c = Inr p"
  from parse_card_shape [OF this] obtain bs pr where
    pr: "primary_rating (parse_badges initial_ratings bs) = Inr pr" and
    p1: "map_of p ''ratings'' = Some (PDict (parse_badges initial_ratings bs))" and
    p2: "map_of p ''rating'' = Some pr"
    by auto
  let ?R = "parse_badges initial_ratings bs"
  have keys: "map fst ?R = map fst initial_ratings" by (rule parse_badges_keys) simp
  have ok: "list_all (\<lambda>kv. rating_value_ok (snd kv)) ?R"
    by (rule parse_badges_ok) (rule initial_ratings_ok)
  obtain r where r: "map_of ?R ''regular'' = Some r"
    using keys_lookup [OF keys, of "''regular''"] by (auto simp: initial_ratings_def)
  obtain q where q: "map_of ?R ''quick'' = Some q"
    using keys_lookup [OF keys, of "''quick''"] by (auto simp: initial_ratings_def)
  obtain b where b: "map_of ?R ''blitz'' = Some b"
    using keys_lookup [OF keys, of "''blitz''"] by (auto simp: initial_ratings_def)
  have okv: "rating_value_ok r" "rating_value_ok q" "rating_value_ok b"
    using ok map_of_SomeD [OF r] map_of_SomeD [OF q] map_of_SomeD [OF b]
    by (auto simp: list_all_iff)
  have pr_eq: "pr = (if r \<noteq> PNone \<and> r \<noteq> PInt 0 then r else if q \<noteq> PNone \<and> q \<noteq> PInt 0 then q else b)"
    using pr r q b okv
    by (auto simp: primary_rating_def dict_get_def truthy_rating split: if_splits)
  have fnn: "r \<noteq> PInt 0 \<and> q \<noteq> PInt 0 \<and> b \<noteq> PInt 0 \<longrightarrow> pr = first_non_null [r, q, b]"
    unfolding pr_eq by simp
  show "\<exists>ratings r q b.
        map_of p ''ratings'' = Some (PDict ratings) \<and>
        map_of ratings ''regular'' = Some r \<and> map_of ratings ''quick'' = Some q \<and>
        map_of ratings ''blitz'' = Some b \<and>
        map_of p ''rating'' =
          Some (if r \<noteq> PNone \<and> r \<noteq> PInt 0 then r else if q \<noteq> PNone \<and> q \<noteq> PInt 0 then q else b) \<and>
        (r \<noteq> PInt 0 \<and> q \<noteq> PInt 0 \<and> b \<noteq> PInt 0 \<longrightarrow>
           map_of p ''rating'' = Some (first_non_null [r, q, b]))"
    apply (rule exI [where x = "?R"])
    apply (rule exI [where x = r])
    apply (rule exI [where x = q])
    apply (rule exI [where x = b])
    using p1 p2 r q b pr_eq [symmetric] fnn apply simp
    done
qed

text \<open>
  The claim as it was stated fails on a regular rating of 0: \<open>or\<close> passes over it,
  and the quick rating 1200 becomes the primary rating.
\<close>

theorem primary_rating_choice_counterexample:
  "parse_card card_zero = Inr
     [(''name'', PStr ''Doe, Jane''), (''memberId'', PStr ''12345678''), (''state'', PStr ''NY''),
      (''ratings'', PDict [(''regular'', PInt 0), (''quick'', PInt 1200), (''blitz'', PNone),
         (''online_regular'', PNone), (''online_quick'', PNone), (''online_blitz'', PNone)]),
      (''uscf_id'', PStr ''12345678''), (''rating'', PInt 1200),
      (''expiration_date'', PStr ''2026-01-31'')] \<and>
   first_non_null [PInt 0, PInt 1200, PNone] = PInt 0 \<and>
   PInt 1200 \<noteq> first_non_null [PInt 0, PInt 1200, PNone]"
  by code_simp

theorem primary_rating_choice_witness:
  "parse_card card_example = Inr player_example \<and>
   map_of player_example ''ratings'' =
     Some (PDict [(''regular'', PInt 1500), (''quick'', PNone), (''blitz'', PNone),
         (''online_regular'', PNone), (''online_quick'', PNone), (''online_blitz'', PNone)]) \<and>
   map_of player_example ''rating'' = Some (first_non_null [PInt 1500, PNone, PNone]) \<and>
   first_non_null [PInt 1500, PNone, PNone] = PInt 1500"
proof -
  from primary_rating_choice [of card_example player_example] card_example_parsed
  obtain ratings r q b where
    h: "map_of player_example ''ratings'' = Some (PDict ratings)"
       "map_of ratings ''regular'' = Some r" "map_of ratings ''quick'' = Some q"
       "map_of ratings ''blitz'' = Some b"
       "r \<noteq> PInt 0 \<and> q \<noteq> PInt 0 \<and> b \<noteq> PInt 0 \<longrightarrow>
           map_of player_example ''rating'' = Some (first_non_null [r, q, b])"
    by blast
  have e: "map_of player_example ''ratings'' =
     Some (PDict [(''regular'', PInt 1500), (''quick'', PNone), (''blitz'', PNone),
         (''online_regular'', PNone), (''online_quick'', PNone), (''online_blitz'', PNone)])"
    by (simp add: player_example_def)
  with h(1) have ratings: "ratings = [(''regular'', PInt 1500), (''quick'', PNone), (''blitz'', PNone),
         (''online_regular'', PNone), (''online_quick'', PNone), (''online_blitz'', PNone)]" by simp
  from h(2,3,4) have "r = PInt 1500" "q = PNone" "b = PNone" unfolding ratings by simp_all
  with h(5) have "map_of player_example ''rating'' = Some (first_non_null [PInt 1500, PNone, PNone])"
    by simp
  with e card_example_parsed show ?thesis by simp
qed

subsection \<open>The fuzzy search\<close>

lemma parse_cards_successfully_parsed: "parse_cards cs = successfully_parsed cs"
  unfolding successfully_parsed_def by (induction cs) (simp_all split: sum.splits)

lemma parse_cards_length: "length (parse_cards cs) \<le> length cs"
  by (induction cs) (simp_all split: sum.splits)

lemma parse_cards_member: "p \<in> set (parse_cards cs) \<Longrightarrow> \<exists>c \<in> set cs. parse_card c = Inr p"
  by (induction cs) (auto split: sum.splits)

lemma slice_to_length: "0 \<le> n \<Longrightarrow> int (length (slice_to xs n)) \<le> n"
  by (simp add: slice_to_def)

lemma get_uscf_player_data_cases:
  "snd (get_uscf_player_data env w search_term n) =
     (case snd (snd (setup_chrome_driver (acquisition env) w)) of
        Inl e \<Rightarrow> Inr []
      | Inr d \<Rightarrow>
          (case navigate env (URL @ ''/?fuzzy='' @ search_term) of
             Some e \<Rightarrow> Inr []
           | None \<Rightarrow>
               (case find_cards env of
                  Inl e \<Rightarrow> Inr []
                | Inr cards \<Rightarrow> Inr (parse_cards (slice_to cards n)))))"
  by (simp add: get_uscf_player_data_def search_with_driver_def Let_def
           split: prod.splits sum.splits option.splits)

lemma get_uscf_player_data_returns:
  "\<exists>ps. snd (get_uscf_player_data env w search_term n) = Inr ps \<and>
        (ps = [] \<or> (\<exists>cards. find_cards env = Inr cards \<and> ps = parse_cards (slice_to cards n)))"
  unfolding get_uscf_player_data_cases by (simp split: sum.splits option.splits)

lemma parse_card_keys:
  "parse_card c = Inr p \<Longrightarrow>
     map fst p = [''name'', ''memberId'', ''state'', ''ratings'', ''uscf_id'', ''rating'', ''expiration_date'']"
  by (drule parse_card_shape) auto


lemma search_example_run:
  "snd (get_uscf_player_data search_example fresh ''Smith'' 10) = Inr [player_example, player_zero]"
  by code_simp

lemma search_example_negative:
  "snd (get_uscf_player_data search_example fresh ''Smith'' (- 1)) = Inr [player_example]"
  by code_simp

text \<open>
  Claim C7, amended. For every search term and every \<open>max_results\<close> that is not
  negative, the search returns a list of at most \<open>max_results\<close> player dictionaries;
  for every \<open>max_results\<close> it returns a list, and every dictionary in it has the keys
  \<open>name\<close>, \<open>memberId\<close>, \<open>state\<close>, \<open>ratings\<close>, \<open>rating\<close> and
  \<open>expiration_date\<close>.
\<close>

theorem fuzzy_search_result:
  "\<exists>ps. snd (get_uscf_player_data env w search_term n) = Inr ps \<and>
        (0 \<le> n \<longrightarrow> int (length ps) \<le> n) \<and>
        (\<forall>p \<in> set ps. set [''name'', ''memberId'', ''state'', ''ratings'', ''rating'', ''expiration_date'']
                          \<subseteq> fst ` set p)"
proof -
  from get_uscf_player_data_returns [of env w search_term n] obtain ps where
    r: "snd (get_uscf_player_data env w search_term n) = Inr ps" and
    ps: "ps = [] \<or> (\<exists>cards. find_cards env = Inr cards \<and> ps = parse_cards (slice_to cards n))"
    by blast
  have len: "0 \<le> n \<longrightarrow> int (length ps) \<le> n"
  proof
    assume n: "0 \<le> n"
    from ps show "int (length ps) \<le> n"
    proof
      assume "ps = []"
      with n show ?thesis by simp
    next
      assume "\<exists>cards. find_cards env = Inr cards \<and> ps = parse_cards (slice_to cards n)"
      then obtain cards where "ps = parse_cards (slice_to cards n)" by blast
      then have "int (length ps) \<le> int (length (slice_to cards n))"
        using parse_cards_length [of "slice_to cards n"] by simp
      also have "\<dots> \<le> n" using n by (rule slice_to_length)
      finally show ?thesis .
    qed
  qed
  have keys: "\<forall>p \<in> set ps. set [''name'', ''memberId'', ''state'', ''ratings'', ''rating'', ''expiration_date'']
                          \<subseteq> fst ` set p"
  proof
    fix p assume "p \<in> set ps"
    with ps obtain cards where "p \<in> set (parse_cards (slice_to cards n))" by auto
    then obtain c where "parse_card c = Inr p" by (blast dest: parse_cards_member)
    from parse_card_keys [OF this]
    have "fst ` set p = set [''name'', ''memberId'', ''state'', ''ratings'', ''uscf_id'', ''rating'', ''expiration_date'']"
      by (metis set_map)
    then show "set [''name'', ''memberId'', ''state'', ''ratings'', ''rating'', ''expiration_date''] \<subseteq> fst ` set p"
      by auto
  qed
  from r len keys show ?thesis by blast
qed

theorem fuzzy_search_result_witness:
  "snd (get_uscf_player_data search_example fresh ''Smith'' 10) = Inr [player_example, player_zero] \<and>
   int (length [player_example, player_zero]) \<le> 10 \<and>
   set [''name'', ''memberId'', ''state'', ''ratings'', ''rating'', ''expiration_date''] \<subseteq> fst ` set player_example \<and>
   set [''name'', ''memberId'', ''state'', ''ratings'', ''rating'', ''expiration_date''] \<subseteq> fst ` set player_zero"
proof -
  from fuzzy_search_result [of search_example fresh "''Smith''" 10] obtain ps where
    "snd (get_uscf_player_data search_example fresh ''Smith'' 10) = Inr ps"
    "0 \<le> (10 :: int) \<longrightarrow> int (length ps) \<le> 10"
    "\<forall>p \<in> set ps. set [''name'', ''memberId'', ''state'', ''ratings'', ''rating'', ''expiration_date'']
                          \<subseteq> fst ` set p"
    by blast
  with search_example_run show ?thesis by simp
qed

text \<open>
  The claim as it was stated fails on a negative \<open>max_results\<close>: the slice
  \<open>search_cards[:-1]\<close> drops the last card, and the list returned has one player.
\<close>

theorem fuzzy_search_result_counterexample:
  "snd (get_uscf_player_data search_example fresh ''Smith'' (- 1)) = Inr [player_example] \<and>
   \<not> int (length [player_example]) \<le> - 1"
  using search_example_negative by simp


lemma successfully_parsed_skip:
  "parse_card c = Inl e \<Longrightarrow> successfully_parsed (xs @ c # ys) = successfully_parsed (xs @ ys)"
  by (simp add: successfully_parsed_def)

lemma search_example_setup:
  "snd (snd (setup_chrome_driver (acquisition search_example) fresh)) = Inr 0"
  by (simp add: search_example_def acq_example_run)

lemma search_no_driver_setup:
  "snd (snd (setup_chrome_driver (acquisition search_no_driver) fresh)) = Inl WebDriverException"
  by (simp add: search_no_driver_def search_example_def acq_none_def setup_chrome_driver_def
        new_driver_def possible_paths_def)

lemma card_noname_fails: "parse_card card_noname = Inl NoSuchElementException"
  by (simp add: card_noname_def parse_card_def)

text \<open>
  Claim C10. The fuzzy search always returns a list. When the driver acquisition, the
  navigation or the lookup of the cards raises, the list is empty. Otherwise it is the
  list of the players of the cards that parse, among the cards the slice keeps, in their
  order; a card whose parsing raises is left out and nothing else changes.
\<close>

theorem fuzzy_search_never_raises:
  "\<exists>ps. snd (get_uscf_player_data env w search_term n) = Inr ps \<and>
     ((\<exists>e. snd (snd (setup_chrome_driver (acquisition env) w)) = Inl e) \<or>
      navigate env (URL @ ''/?fuzzy='' @ search_term) \<noteq> None \<or>
      (\<exists>e. find_cards env = Inl e) \<longrightarrow> ps = []) \<and>
     (\<forall>d cards. snd (snd (setup_chrome_driver (acquisition env) w)) = Inr d \<and>
        navigate env (URL @ ''/?fuzzy='' @ search_term) = None \<and> find_cards env = Inr cards \<longrightarrow>
        ps = successfully_parsed (slice_to cards n)) \<and>
     (\<forall>c e xs ys. parse_card c = Inl e \<longrightarrow>
        successfully_parsed (xs @ c # ys) = successfully_parsed (xs @ ys))"
  unfolding get_uscf_player_data_cases parse_cards_successfully_parsed
  by (auto simp: successfully_parsed_skip split: sum.splits option.splits)

theorem fuzzy_search_never_raises_witness:
  "snd (get_uscf_player_data search_example fresh ''Smith'' 10) = Inr [player_example, player_zero] \<and>
   successfully_parsed (slice_to [card_example, card_noname, card_zero] 10) = [player_example, player_zero] \<and>
   parse_card card_noname = Inl NoSuchElementException \<and>
   successfully_parsed ([card_example] @ card_noname # [card_zero]) =
     successfully_parsed ([card_example] @ [card_zero]) \<and>
   snd (snd (setup_chrome_driver (acquisition search_no_driver) fresh)) = Inl WebDriverException \<and>
   snd (get_uscf_player_data search_no_driver fresh ''Smith'' 10) = Inr []"
proof -
  from fuzzy_search_never_raises [of search_example fresh "''Smith''" 10] obtain ps where
    a: "snd (get_uscf_player_data search_example fresh ''Smith'' 10) = Inr ps"
       "\<forall>d cards. snd (snd (setup_chrome_driver (acquisition search_example) fresh)) = Inr d \<and>
          navigate search_example (URL @ ''/?fuzzy='' @ ''Smith'') = None \<and>
          find_cards search_example = Inr cards \<longrightarrow>
          ps = successfully_parsed (slice_to cards 10)"
       "\<forall>c e xs ys. parse_card c = Inl e \<longrightarrow>
          successfully_parsed (xs @ c # ys) = successfully_parsed (xs @ ys)"
    by blast
  have nav: "navigate search_example (URL @ ''/?fuzzy='' @ ''Smith'') = None"
    and cards: "find_cards search_example = Inr [card_example, card_noname, card_zero]"
    by (simp_all add: search_example_def)
  from a(2) search_example_setup nav cards
  have "ps = successfully_parsed (slice_to [card_example, card_noname, card_zero] 10)" by blast
  with a(1) search_example_run
  have 1: "successfully_parsed (slice_to [card_example, card_noname, card_zero] 10) =
             [player_example, player_zero]" by simp
  from a(3) card_noname_fails
  have 2: "successfully_parsed ([card_example] @ card_noname # [card_zero]) =
             successfully_parsed ([card_example] @ [card_zero])" by blast
  from fuzzy_search_never_raises [of search_no_driver fresh "''Smith''" 10] obtain qs where
    b: "snd (get_uscf_player_data search_no_driver fresh ''Smith'' 10) = Inr qs"
       "(\<exists>e. snd (snd (setup_chrome_driver (acquisition search_no_driver) fresh)) = Inl e) \<or>
        navigate search_no_driver (URL @ ''/?fuzzy='' @ ''Smith'') \<noteq> None \<or>
        (\<exists>e. find_cards search_no_driver = Inl e) \<longrightarrow> qs = []"
    by blast
  from b(2) search_no_driver_setup have "qs = []" by blast
  with b(1) have 3: "snd (get_uscf_player_data search_no_driver fresh ''Smith'' 10) = Inr []" by simp
  from search_example_run 1 2 3 card_noname_fails search_no_driver_setup show ?thesis by blast
qed

subsection \<open>The profile lookup\<close>

lemma profile_example_run:
  "get_uschess_info profile_example fresh ''14970943'' =
     (\<lparr>created = 1, live = []\<rparr>,
      Inr (Some [(''rating'', PStr ''Not found''), (''expiration_date'', PStr ''2026-01-31''),
                 (''player_id'', PStr ''14970943'')]))"
  by code_simp

text \<open>
  Claim C8. A lookup that returns a dictionary returns one with exactly the keys
  \<open>rating\<close>, \<open>expiration_date\<close> and \<open>player_id\<close>; \<open>player_id\<close> is the member id
  that was asked for, \<open>expiration_date\<close> the stripped text of the expiration node, and
  when the wait for the rating node timed out \<open>rating\<close> is the string \<open>Not found\<close>.
\<close>

theorem profile_lookup_result:
  "get_uschess_info env w player_id = (w', Inr (Some d)) \<longrightarrow>
     map fst d = [''rating'', ''expiration_date'', ''player_id''] \<and>
     map_of d ''player_id'' = Some (PStr player_id) \<and>
     (\<exists>t. expiration_node env = Inr t \<and> map_of d ''expiration_date'' = Some (PStr (py_strip t))) \<and>
     (rating_node env = Inl TimeoutException \<longrightarrow> map_of d ''rating'' = Some (PStr ''Not found''))"
  by (auto simp: get_uschess_info_def lookup_with_driver_def new_driver_def lookup_failure_def Let_def
           split: option.splits sum.splits if_splits)

theorem profile_lookup_result_witness:
  "get_uschess_info profile_example fresh ''14970943'' =
     (\<lparr>created = 1, live = []\<rparr>,
      Inr (Some [(''rating'', PStr ''Not found''), (''expiration_date'', PStr ''2026-01-31''),
                 (''player_id'', PStr ''14970943'')])) \<and>
   rating_node profile_example = Inl TimeoutException \<and>
   map_of [(''rating'', PStr ''Not found''), (''expiration_date'', PStr ''2026-01-31''),
           (''player_id'', PStr ''14970943'')] ''player_id'' = Some (PStr ''14970943'') \<and>
   map_of [(''rating'', PStr ''Not found''), (''expiration_date'', PStr ''2026-01-31''),
           (''player_id'', PStr ''14970943'')] ''rating'' = Some (PStr ''Not found'')"
proof -
  have t: "rating_node profile_example = Inl TimeoutException"
    by (simp add: profile_example_def)
  from profile_lookup_result [of profile_example fresh "''14970943''" "\<lparr>created = 1, live = []\<rparr>"
      "[(''rating'', PStr ''Not found''), (''expiration_date'', PStr ''2026-01-31''),
        (''player_id'', PStr ''14970943'')]"] profile_example_run t
  show ?thesis by blast
qed

subsection \<open>The browser handle\<close>

lemma try_paths_browser:
  "try_paths env w ps = (w', l, r) \<Longrightarrow>
     (case r of
        None \<Rightarrow> w' = w
      | Some d \<Rightarrow> d = created w \<and> w' = w\<lparr>created := Suc (created w), live := created w # live w\<rparr>)"
proof (induction ps arbitrary: l w' r)
  case Nil
  then show ?case by simp
next
  case (Cons p ps)
  show ?case
  proof (cases "path_exists env p \<or> p = ''chromedriver''")
    case False
    with Cons show ?thesis by simp
  next
    case True
    show ?thesis
    proof (cases "chrome_at env p")
      case None
      with True Cons.prems show ?thesis by (auto simp: new_driver_def)
    next
      case (Some e)
      obtain w2 l2 r2 where t: "try_paths env w ps = (w2, l2, r2)"
        by (cases "try_paths env w ps") auto
      with True Some Cons.prems have "w' = w2" "r = r2" by (auto simp: new_driver_def)
      with Cons.IH [OF t] show ?thesis by (auto split: option.splits)
    qed
  qed
qed

lemma setup_chrome_driver_browser:
  "setup_chrome_driver env w = (w', l, r) \<Longrightarrow>
     (case r of
        Inl e \<Rightarrow> w' = w
      | Inr d \<Rightarrow> d = created w \<and> w' = w\<lparr>created := Suc (created w), live := created w # live w\<rparr>)"
proof (cases "managed_driver env")
  case None
  assume "setup_chrome_driver env w = (w', l, r)"
  with None show ?thesis by (auto simp: setup_chrome_driver_def new_driver_def)
next
  case (Some e1)
  assume a: "setup_chrome_driver env w = (w', l, r)"
  obtain w2 l2 r2 where t: "try_paths env w possible_paths = (w2, l2, r2)"
    by (cases "try_paths env w possible_paths") auto
  from try_paths_browser [OF t] a Some t show ?thesis
    by (cases r2; cases "chrome_plain env")
       (auto simp: setup_chrome_driver_def new_driver_def)
qed

lemma get_uschess_info_browser:
  "fst (get_uschess_info env fresh player_id) =
     \<lparr>created = (if chrome_start env = None then 1 else 0), live = []\<rparr>"
  by (simp add: get_uschess_info_def new_driver_def quit_def fresh_def split: option.splits)

lemma get_uscf_player_data_pop_browser:
  "fst (get_uscf_player_data_pop env fresh) =
     \<lparr>created = (if driver_start env = None then 1 else 0), live = []\<rparr>"
  by (simp add: get_uscf_player_data_pop_def new_driver_def quit_def fresh_def
           split: option.splits sum.splits prod.splits)

lemma get_uscf_player_data_browser:
  "fst (get_uscf_player_data env fresh search_term n) =
     \<lparr>created = (case snd (snd (setup_chrome_driver (acquisition env) fresh)) of Inl e \<Rightarrow> 0 | Inr d \<Rightarrow> 1),
      live = []\<rparr>"
proof -
  obtain w1 l r where s: "setup_chrome_driver (acquisition env) fresh = (w1, l, r)"
    by (cases "setup_chrome_driver (acquisition env) fresh") auto
  from setup_chrome_driver_browser [OF s] s show ?thesis
    by (cases r)
       (auto simp: get_uscf_player_data_def search_with_driver_def quit_def fresh_def Let_def
             split: prod.splits sum.splits option.splits)
qed


lemma profile_broken_run:
  "get_uschess_info profile_broken fresh ''14970943'' =
     (\<lparr>created = 1, live = []\<rparr>, Inl WebDriverException)"
  by code_simp

lemma form_timeout_run:
  "get_uscf_player_data_pop form_timeout fresh =
     (\<lparr>created = 1, live = []\<rparr>, [], Inr (TimeoutError TimeoutException))"
  by code_simp

text \<open>
  Claim C4, amended. In every top-level scrape invocation (the profile lookup of
  test.py, the form search of pop.py, the fuzzy search of search\_players.py), started
  with no handle open, at most one browser handle is created: exactly one when the
  driver is constructed, none when its construction raises. Whatever the pages answer
  afterwards, and whether the function returns or raises, no handle is open at the end.
\<close>

theorem browser_handle_released:
  "live (fst (get_uschess_info penv fresh player_id)) = [] \<and>
   created (fst (get_uschess_info penv fresh player_id)) = (if chrome_start penv = None then 1 else 0) \<and>
   live (fst (get_uscf_player_data_pop fenv fresh)) = [] \<and>
   created (fst (get_uscf_player_data_pop fenv fresh)) = (if driver_start fenv = None then 1 else 0) \<and>
   live (fst (get_uscf_player_data senv fresh search_term n)) = [] \<and>
   created (fst (get_uscf_player_data senv fresh search_term n)) =
     (case snd (snd (setup_chrome_driver (acquisition senv) fresh)) of Inl e \<Rightarrow> 0 | Inr d \<Rightarrow> 1)"
  by (simp add: get_uschess_info_browser get_uscf_player_data_pop_browser get_uscf_player_data_browser)

theorem browser_handle_released_witness:
  "get_uschess_info profile_broken fresh ''14970943'' =
     (\<lparr>created = 1, live = []\<rparr>, Inl WebDriverException) \<and>
   live (fst (get_uschess_info profile_broken fresh ''14970943'')) = [] \<and>
   created (fst (get_uschess_info profile_broken fresh ''14970943'')) = 1 \<and>
   get_uscf_player_data_pop form_timeout fresh =
     (\<lparr>created = 1, live = []\<rparr>, [], Inr (TimeoutError TimeoutException)) \<and>
   live (fst (get_uscf_player_data_pop form_timeout fresh)) = [] \<and>
   live (fst (get_uscf_player_data search_example fresh ''Smith'' 10)) = [] \<and>
   created (fst (get_uscf_player_data search_example fresh ''Smith'' 10)) = 1"
proof -
  have c: "chrome_start profile_broken = None"
    by (simp add: profile_broken_def profile_example_def)
  from browser_handle_released [of profile_broken "''14970943''" form_timeout search_example "''Smith''" 10]
    c search_example_setup profile_broken_run form_timeout_run
  show ?thesis by simp
qed

text \<open>
  The claim as it was stated fails when Chrome does not start: no handle is created
  (and the \<open>finally\<close> clause of the profile lookup raises \<open>UnboundLocalError\<close>).
\<close>

theorem browser_handle_released_counterexample:
  "get_uschess_info profile_no_chrome fresh ''14970943'' =
     (\<lparr>created = 0, live = []\<rparr>, Inl UnboundLocalError) \<and>
   created (fst (get_uschess_info profile_no_chrome fresh ''14970943'')) \<noteq> 1"
  by code_simp

subsection \<open>The record sink\<close>

lemma map_of_dict_set_same: "map_of (dict_set d k v) k = Some v"
  by (simp add: map_of_dict_set)




lemma columns_updated [simp]: "columns (updated col v pid t) = columns t"
  by (simp add: updated_def)



















subsection \<open>The table parser\<close>

lemma prefix_of_short: "prefix p (q @ r) \<Longrightarrow> length p \<le> length q \<Longrightarrow> prefix p q"
  by (auto simp: prefix_append)

lemma prefix_shorter:
  assumes "prefix pat (x @ pat @ a)" and "x \<noteq> []"
  shows "prefix pat (x @ butlast pat)"
proof (cases "pat = []")
  case True
  then show ?thesis by simp
next
  case False
  then have e: "x @ pat @ a = (x @ butlast pat) @ (last pat # a)" by simp
  have l: "length pat \<le> length (x @ butlast pat)"
    using assms(2) by (cases x) simp_all
  from assms(1) have "prefix pat ((x @ butlast pat) @ (last pat # a))" by (simp only: e)
  then show ?thesis using l by (rule prefix_of_short)
qed

lemma match_tag_no_prefix: "\<not> prefix (CHR ''<'' # tag) s \<Longrightarrow> match_tag tag s = None"
  unfolding match_tag_def by (rule if_not_P)

lemma find_sub_first:
  "pat \<noteq> [] \<Longrightarrow> \<not> occurs pat (b @ butlast pat) \<Longrightarrow> find_sub pat (b @ pat @ a) = Some (b, a)"
proof (induction b)
  case Nil
  then obtain p ps where "pat = p # ps" by (cases pat) auto
  then show ?case by simp
next
  case (Cons c b)
  from Cons.prems(2) have np: "\<not> prefix pat ((c # b) @ butlast pat)" and no: "\<not> occurs pat (b @ butlast pat)"
    by simp_all
  from np have "\<not> prefix pat ((c # b) @ pat @ a)"
    using prefix_shorter [of pat "c # b" a] by blast
  with Cons.IH [OF Cons.prems(1) no] show ?case by simp
qed

lemma occurs_single: "occurs [c] s = (c \<in> set s)"
  by (induction s) auto

lemma match_tag_fragment:
  assumes "CHR ''>'' \<notin> set attrs"
    and "\<not> occurs (''</'' @ tag @ ''>'') (inner @ butlast (''</'' @ tag @ ''>''))"
  shows "match_tag tag ((CHR ''<'' # tag) @ attrs @ ''>'' @ inner @ (''</'' @ tag @ ''>'') @ rest)
           = Some (inner, rest)"
proof -
  have a: "find_sub ''>'' (attrs @ ''>'' @ inner @ (''</'' @ tag @ ''>'') @ rest)
             = Some (attrs, inner @ (''</'' @ tag @ ''>'') @ rest)"
    using assms(1) by (intro find_sub_first) (simp_all add: occurs_single)
  have b: "find_sub (''</'' @ tag @ ''>'') (inner @ (''</'' @ tag @ ''>'') @ rest) = Some (inner, rest)"
    using assms(2) by (intro find_sub_first) simp_all
  have d: "drop (Suc (length tag)) ((CHR ''<'' # tag) @ attrs @ ''>'' @ inner @ (''</'' @ tag @ ''>'') @ rest)
             = attrs @ ''>'' @ inner @ (''</'' @ tag @ ''>'') @ rest"
    by simp
  show ?thesis unfolding match_tag_def d a using b by simp
qed

lemma findall_tag_skip:
  assumes "\<not> occurs (CHR ''<'' # tag) (gap @ butlast (CHR ''<'' # tag))"
  shows "findall_tag tag (gap @ (CHR ''<'' # tag) @ s) = findall_tag tag ((CHR ''<'' # tag) @ s)"
  using assms
proof (induction gap)
  case Nil
  show ?case by simp
next
  case (Cons c gap)
  from Cons.prems have np: "\<not> prefix (CHR ''<'' # tag) ((c # gap) @ butlast (CHR ''<'' # tag))"
    and no: "\<not> occurs (CHR ''<'' # tag) (gap @ butlast (CHR ''<'' # tag))"
    by simp_all
  from np have "\<not> prefix (CHR ''<'' # tag) ((c # gap) @ (CHR ''<'' # tag) @ s)"
    using prefix_shorter [of "CHR ''<'' # tag" "c # gap" s] by blast
  then have "match_tag tag (c # gap @ (CHR ''<'' # tag) @ s) = None"
    by (intro match_tag_no_prefix) simp
  then have "findall_tag tag ((c # gap) @ (CHR ''<'' # tag) @ s) = findall_tag tag (gap @ (CHR ''<'' # tag) @ s)"
    by (simp add: findall_tag.simps(2))
  with Cons.IH [OF no] show ?case by simp
qed

lemma findall_tag_none:
  "\<not> occurs (CHR ''<'' # tag) s \<Longrightarrow> findall_tag tag s = []"
proof (induction s)
  case Nil
  show ?case by simp
next
  case (Cons c s)
  then have "\<not> prefix (CHR ''<'' # tag) (c # s)" by simp
  then have "match_tag tag (c # s) = None" by (rule match_tag_no_prefix)
  with Cons show ?case by (simp add: findall_tag.simps(2))
qed

lemma findall_tr_rows:
  "list_all row_ok rs \<Longrightarrow> \<not> occurs ''<tr'' tail \<Longrightarrow>
     findall_tag ''tr'' (concat (map row_block rs) @ tail) = map row_inner rs"
proof (induction rs)
  case Nil
  then show ?case by (simp add: findall_tag_none)
next
  case (Cons row rs)
  obtain gap attrs inner where row: "row = (gap, attrs, inner)" by (cases row) auto
  let ?R = "concat (map row_block rs) @ tail"
  from Cons.prems(1) row have ok: "\<not> occurs ''<tr'' (gap @ ''<t'')" "CHR ''>'' \<notin> set attrs"
    "\<not> occurs ''</tr>'' (inner @ ''</tr'')" and oks: "list_all row_ok rs"
    by simp_all
  have "findall_tag ''tr'' (concat (map row_block (row # rs)) @ tail) =
          findall_tag ''tr'' (gap @ ''<tr'' @ (attrs @ ''>'' @ inner @ ''</tr>'' @ ?R))"
    by (simp add: row)
  also have "\<dots> = findall_tag ''tr'' (''<tr'' @ (attrs @ ''>'' @ inner @ ''</tr>'' @ ?R))"
    using ok(1) by (intro findall_tag_skip) simp
  also have "\<dots> = inner # findall_tag ''tr'' ?R"
    using match_tag_fragment [of attrs "''tr''" inner ?R] ok(2,3)
    by (simp add: findall_tag.simps(2))
  also have "\<dots> = map row_inner (row # rs)"
    using Cons.IH [OF oks Cons.prems(2)] by (simp add: row)
  finally show ?case .
qed

lemma search_tbody_block:
  assumes "\<not> occurs ''<tbody>'' (pre @ ''<tbody'')" and "\<not> occurs ''</tbody>'' (content @ ''</tbody'')"
  shows "search_tbody (pre @ ''<tbody>'' @ content @ ''</tbody>'' @ post) = Some content"
proof -
  have a: "find_sub ''<tbody>'' (pre @ ''<tbody>'' @ content @ ''</tbody>'' @ post)
             = Some (pre, content @ ''</tbody>'' @ post)"
    using assms(1) by (intro find_sub_first) simp_all
  have b: "find_sub ''</tbody>'' (content @ ''</tbody>'' @ post) = Some (content, post)"
    using assms(2) by (intro find_sub_first) simp_all
  show ?thesis unfolding search_tbody_def a using b by simp
qed

lemma fallback_stage_cases:
  "fallback_stage html_table =
     (case search_tbody html_table of
        None \<Rightarrow> [AllNaN]
      | Some content \<Rightarrow>
          AllNaN # FoundRows (length (findall_tag ''tr'' content)) #
            report_rows 0 (take 3 (findall_tag ''tr'' content)))"
  by (simp add: fallback_stage_def Let_def split: option.splits)

lemma parse_table_log:
  "fst (parse_table html_table data_frame) =
     (if \<exists>df rest. data_frame = Inr (df # rest) \<and> all_null df then fallback_stage html_table else [])"
  by (auto simp: parse_table_def split: sum.splits list.splits)

lemma parse_table_outcome:
  "(snd (parse_table html_table data_frame) = StructureIssue) =
     (\<exists>df rest. data_frame = Inr (df # rest) \<and> all_null df)"
  by (auto simp: parse_table_def split: sum.splits list.splits)

lemma html_example_ok:
  "list_all row_ok rows_example \<and> \<not> occurs ''<tr'' '' '' \<and>
   \<not> occurs ''<tbody>'' (''<table class=table-bordered><thead><tr><th>Name</th></tr></thead>'' @ ''<tbody'') \<and>
   \<not> occurs ''</tbody>'' (concat (map row_block rows_example) @ '' '' @ ''</tbody'')"
  by code_simp

lemma frame_null_all_null: "all_null frame_null"
  by code_simp

lemma html_example_report:
  "report_rows 0 (take 3 (map row_inner rows_example)) =
     [RowCells 0 2, CellText 0 ''US Smith'', CellText 1 ''14970943'', RowCells 1 1, CellText 0 []]"
  by code_simp

text \<open>
  Claim C6, amended. The fallback stage runs exactly when \<open>read_html\<close> returned at
  least one frame and every cell of the first frame is null; the function then returns
  its structure-issue message. When it runs and the HTML holds the literal text
  \<open><tbody>\<close> with a \<open></tbody>\<close> after it, it reports the number of \<open>tr\<close> fragments
  the pattern finds between the two; when the HTML holds no such text it reports no row
  count. For a table body written out as well-formed rows after a plain \<open><tbody>\<close>
  tag, the number reported is the number of rows.
\<close>

theorem table_parser_fallback:
  "fst (parse_table html_table data_frame) =
     (if \<exists>df rest. data_frame = Inr (df # rest) \<and> all_null df then fallback_stage html_table else []) \<and>
   ((snd (parse_table html_table data_frame) = StructureIssue) =
      (\<exists>df rest. data_frame = Inr (df # rest) \<and> all_null df)) \<and>
   fallback_stage html_table =
     (case search_tbody html_table of
        None \<Rightarrow> [AllNaN]
      | Some content \<Rightarrow>
          AllNaN # FoundRows (length (findall_tag ''tr'' content)) #
            report_rows 0 (take 3 (findall_tag ''tr'' content))) \<and>
   (list_all row_ok rs \<and> \<not> occurs ''<tr'' tail \<and> \<not> occurs ''<tbody>'' (pre @ ''<tbody'') \<and>
    \<not> occurs ''</tbody>'' (concat (map row_block rs) @ tail @ ''</tbody'') \<longrightarrow>
      fallback_stage (pre @ ''<tbody>'' @ concat (map row_block rs) @ tail @ ''</tbody>'' @ post) =
        AllNaN # FoundRows (length rs) # report_rows 0 (take 3 (map row_inner rs)))"
proof (intro conjI impI)
  show "fst (parse_table html_table data_frame) =
     (if \<exists>df rest. data_frame = Inr (df # rest) \<and> all_null df then fallback_stage html_table else [])"
    by (rule parse_table_log)
  show "(snd (parse_table html_table data_frame) = StructureIssue) =
      (\<exists>df rest. data_frame = Inr (df # rest) \<and> all_null df)"
    by (rule parse_table_outcome)
  show "fallback_stage html_table =
     (case search_tbody html_table of
        None \<Rightarrow> [AllNaN]
      | Some content \<Rightarrow>
          AllNaN # FoundRows (length (findall_tag ''tr'' content)) #
            report_rows 0 (take 3 (findall_tag ''tr'' content)))"
    by (rule fallback_stage_cases)
next
  assume a: "list_all row_ok rs \<and> \<not> occurs ''<tr'' tail \<and> \<not> occurs ''<tbody>'' (pre @ ''<tbody'') \<and>
    \<not> occurs ''</tbody>'' (concat (map row_block rs) @ tail @ ''</tbody'')"
  let ?content = "concat (map row_block rs) @ tail"
  from a have "search_tbody (pre @ ''<tbody>'' @ ?content @ ''</tbody>'' @ post) = Some ?content"
    by (intro search_tbody_block) simp_all
  moreover from a have "findall_tag ''tr'' ?content = map row_inner rs"
    by (intro findall_tr_rows) simp_all
  ultimately show "fallback_stage (pre @ ''<tbody>'' @ concat (map row_block rs) @ tail @ ''</tbody>'' @ post) =
        AllNaN # FoundRows (length rs) # report_rows 0 (take 3 (map row_inner rs))"
    by (simp add: fallback_stage_cases)
qed

theorem table_parser_fallback_witness:
  "all_null frame_null \<and>
   list_all row_ok rows_example \<and>
   parse_table html_example (Inr [frame_null]) =
     ([AllNaN, FoundRows 2, RowCells 0 2, CellText 0 ''US Smith'', CellText 1 ''14970943'',
       RowCells 1 1, CellText 0 []],
      StructureIssue)"
proof -
  note t = table_parser_fallback [of html_example "Inr [frame_null]" rows_example "'' ''"
      "''<table class=table-bordered><thead><tr><th>Name</th></tr></thead>''" "''</table>''"]
  have ex: "\<exists>df rest. (Inr [frame_null] :: frame list result) = Inr (df # rest) \<and> all_null df"
    using frame_null_all_null by blast
  from t ex have 1: "fst (parse_table html_example (Inr [frame_null])) = fallback_stage html_example"
    and 2: "snd (parse_table html_example (Inr [frame_null])) = StructureIssue"
    by simp_all
  from t html_example_ok
  have "fallback_stage html_example =
          AllNaN # FoundRows (length rows_example) # report_rows 0 (take 3 (map row_inner rows_example))"
    unfolding html_example_def by blast
  also have "\<dots> = [AllNaN, FoundRows 2, RowCells 0 2, CellText 0 ''US Smith'', CellText 1 ''14970943'',
       RowCells 1 1, CellText 0 []]"
    by (simp add: html_example_report) (simp add: rows_example_def)
  finally have 3: "fallback_stage html_example =
     [AllNaN, FoundRows 2, RowCells 0 2, CellText 0 ''US Smith'', CellText 1 ''14970943'',
       RowCells 1 1, CellText 0 []]" .
  from 1 2 3 have "parse_table html_example (Inr [frame_null]) =
     ([AllNaN, FoundRows 2, RowCells 0 2, CellText 0 ''US Smith'', CellText 1 ''14970943'',
       RowCells 1 1, CellText 0 []],
      StructureIssue)"
    by (cases "parse_table html_example (Inr [frame_null])") simp
  with frame_null_all_null html_example_ok show ?thesis by blast
qed

text \<open>
  The claim as it was stated fails on a table whose body tag has an attribute: the
  structured parse is all NaN and the fallback stage runs, the body holds one \<open>tr\<close>
  fragment, and no row count is reported, since the pattern asks for the plain text
  \<open><tbody>\<close>.
\<close>

theorem table_parser_fallback_counterexample:
  "all_null frame_null \<and>
   html_attribute =
     ''<table class=table-bordered><tbody id=results>'' @ ''<tr><td>Smith</td></tr>'' @ ''</tbody></table>'' \<and>
   findall_tag ''tr'' ''<tr><td>Smith</td></tr>'' = [''<td>Smith</td>''] \<and>
   parse_table html_attribute (Inr [frame_null]) = ([AllNaN], StructureIssue) \<and>
   FoundRows 1 \<notin> set (fst (parse_table html_attribute (Inr [frame_null])))"
  by code_simp

end
